theory Spec2Isabelle
  imports Main "HOL-Library.Sublist"
begin

section \<open>Data model\<close>

text \<open>
  The program is \<^verbatim>\<open>scripts/ktm_taskade.py\<close>. Python \<^verbatim>\<open>str\<close> values are modelled as
  \<^typ>\<open>string\<close>, holding the UTF-8 encoding of the text, so that equality, emptiness and
  concatenation of texts are those of the byte lists. The operations that look at
  characters (\<^verbatim>\<open>s[:n]\<close>, \<^verbatim>\<open>strip\<close>, \<^verbatim>\<open>lower\<close>) are defined below with the characters
  outside ASCII taken into account. Python exceptions are values of \<open>exc\<close>, and a function
  that can raise returns \<open>exc + 'a\<close> with \<open>Inl\<close> for the raised exception.
\<close>

subsection \<open>JSON values, as \<^verbatim>\<open>resp.json()\<close> returns them\<close>

text \<open>
  \<open>JNull\<close> is Python's \<^verbatim>\<open>None\<close>; an object is a \<^verbatim>\<open>dict\<close> with string keys, kept as an
  association list in which the first binding of a key counts. \<open>JNum\<close> carries an integer;
  every function below treats a number only through its truthiness (non-zero) and through
  the fact that it is neither a string nor a container.
\<close>

datatype json =
    JNull
  | JBool bool
  | JNum int
  | JStr string
  | JArr "json list"
  | JObj "(string \<times> json) list"

datatype exc =
    RequestException string "string option"
    \<comment> \<open>\<^verbatim>\<open>requests.exceptions.RequestException\<close> and its subclasses (\<^verbatim>\<open>HTTPError\<close>,
        \<^verbatim>\<open>ConnectionError\<close>, \<^verbatim>\<open>Timeout\<close>, \<^verbatim>\<open>JSONDecodeError\<close>): the message and the
        text of the attached response, if there is one\<close>
  | KeyError string
  | IndexError
  | TypeError
  | AttributeError
  | RuntimeError string
  | ValueError string
  | AssertionError
  | OverflowError
  | OtherException string
    \<comment> \<open>any other subclass of \<^verbatim>\<open>Exception\<close>, such as protobuf's \<^verbatim>\<open>DecodeError\<close>\<close>

text \<open>Truthiness of a JSON value (\<^verbatim>\<open>bool(v)\<close>).\<close>

fun truthy :: "json \<Rightarrow> bool" where
  "truthy JNull = False"
| "truthy (JBool b) = b"
| "truthy (JNum n) = (n \<noteq> 0)"
| "truthy (JStr s) = (s \<noteq> [])"
| "truthy (JArr xs) = (xs \<noteq> [])"
| "truthy (JObj kvs) = (kvs \<noteq> [])"

text \<open>\<^verbatim>\<open>a or b\<close>.\<close>

definition py_or :: "json \<Rightarrow> json \<Rightarrow> json" where
  "py_or a b = (if truthy a then a else b)"

text \<open>\<^verbatim>\<open>d.get(k)\<close>: only a \<^verbatim>\<open>dict\<close> has the method; a missing key gives \<^verbatim>\<open>None\<close>.\<close>

fun dict_get :: "json \<Rightarrow> string \<Rightarrow> exc + json" where
  "dict_get (JObj kvs) k = Inr (case map_of kvs k of None \<Rightarrow> JNull | Some v \<Rightarrow> v)"
| "dict_get _ k = Inl AttributeError"

text \<open>Decimal rendering of an integer (\<^verbatim>\<open>str(n)\<close>, \<^verbatim>\<open>f"{n}"\<close>).\<close>

fun str_nat :: "nat \<Rightarrow> string" where
  "str_nat n = (if n < 10 then [''0123456789'' ! n]
                else str_nat (n div 10) @ [''0123456789'' ! (n mod 10)])"

declare str_nat.simps [simp del]

definition str_int :: "int \<Rightarrow> string" where
  "str_int i = (if i < 0 then CHR ''-'' # str_nat (nat (- i)) else str_nat (nat i))"

text \<open>
  The first \<open>n\<close> characters of a text (\<^verbatim>\<open>s[:n]\<close>). In UTF-8 a character is a byte that is
  not a continuation byte, followed by its continuation bytes.
\<close>

definition continuation :: "char \<Rightarrow> bool" where
  "continuation c = (128 \<le> (of_char c :: nat) \<and> (of_char c :: nat) < 192)"

fun take_chars :: "nat \<Rightarrow> string \<Rightarrow> string" where
  "take_chars n [] = []"
| "take_chars n (c # cs) =
     (if continuation c then c # take_chars n cs
      else (case n of 0 \<Rightarrow> [] | Suc m \<Rightarrow> c # take_chars m cs))"

subsection \<open>Configuration\<close>

text \<open>
  The module-level constants read from the environment. \<^verbatim>\<open>RETRY_BACKOFF\<close> is a float. The
  program uses it in one place, the handler of \<^verbatim>\<open>http_request\<close>, which computes
  \<^verbatim>\<open>RETRY_BACKOFF ** (attempt - 1)\<close> and passes the power to \<^verbatim>\<open>time.sleep\<close>. The model keeps
  of the float what these two steps do for each exponent: the power raises (a float
  overflow), or \<^verbatim>\<open>time.sleep\<close> raises (a delay that is negative, not a number or too large),
  or the sleep completes.
\<close>

datatype backoff_result = Slept | PowerRaises exc | SleepRaises exc

record config =
  TASKADE_API_TOKEN :: string
  TASKADE_PROJECT_ID :: string
  TASKADE_TASK_ID :: string
  HTTP_TIMEOUT :: int
  MAX_RETRIES :: int
  RETRY_BACKOFF :: "int \<Rightarrow> backoff_result"

definition GTFSR_URL :: string where
  "GTFSR_URL = ''https://api.data.gov.my/gtfs-realtime/vehicle-position/ktmb''"

definition DASHBOARD_TITLE :: string where
  "DASHBOARD_TITLE = ''KTM Train Status Live Update''"

definition TASKADE_BASE_URL :: string where
  "TASKADE_BASE_URL = ''https://www.taskade.com/api/v1''"

subsection \<open>The network and the trace of effects\<close>

record http_req =
  req_method :: string
  req_url :: string
  req_headers :: "(string \<times> string) list"
  req_json :: "json option"
  req_params :: "json option"
  req_timeout :: int

text \<open>
  A response: its status, its body as text and as bytes, and what \<^verbatim>\<open>resp.json()\<close> returns
  (\<open>None\<close> when the body is not JSON and the call raises).
\<close>

record response =
  resp_status_code :: int
  resp_text :: string
  resp_content :: string
  resp_json :: "json option"

datatype level = INFO | WARNING | ERROR

text \<open>
  Every effect of a run, in order. \<open>Request\<close> is one call of \<^verbatim>\<open>requests.request\<close> or
  \<^verbatim>\<open>requests.get\<close>; \<open>Sleep k\<close> is a completed \<^verbatim>\<open>time.sleep(RETRY_BACKOFF ** k)\<close>; \<open>Log\<close> is one logger
  call, with the level and the format string of the message (without its leading pictogram
  and its quotation marks, and with the interpolated fields left as written); \<open>Print v\<close> is
  \<^verbatim>\<open>print(json.dumps(v))\<close>;
  \<open>Traceback\<close> is \<^verbatim>\<open>traceback.print_exc()\<close>. \<open>Call f\<close> marks the entry into the client
  method \<open>f\<close>; the methods have no such statement, the mark only makes calls countable.
\<close>

datatype event =
    Request http_req
  | Sleep int
  | Log level string
  | Print json
  | Call string
  | Traceback

type_synonym trace = "event list"

text \<open>
  The outside world answers the \<open>n\<close>-th request of the run (counted from 0) either with
  a response or with an exception raised by the \<^verbatim>\<open>requests\<close> library.
\<close>

type_synonym server = "nat \<Rightarrow> http_req \<Rightarrow> exc + response"

fun is_request :: "event \<Rightarrow> bool" where
  "is_request (Request _) = True"
| "is_request _ = False"

definition nreqs :: "trace \<Rightarrow> nat" where
  "nreqs tr = length (filter is_request tr)"

definition calls :: "string \<Rightarrow> trace \<Rightarrow> nat" where
  "calls f tr = length (filter (\<lambda>e. e = Call f) tr)"

text \<open>One call of \<^verbatim>\<open>requests.request\<close>: the request is recorded and the world answers.\<close>

definition send :: "server \<Rightarrow> http_req \<Rightarrow> trace \<Rightarrow> (exc + response) \<times> trace" where
  "send srv rq tr = (srv (nreqs tr) rq, tr @ [Request rq])"

section \<open>The retrying HTTP client\<close>

text \<open>
  \<^verbatim>\<open>http_request\<close>: the body of the \<^verbatim>\<open>for attempt in range(1, MAX_RETRIES + 1)\<close> loop is
  one step of \<open>http_attempts\<close>, which runs over the attempt numbers still to come and
  carries \<^verbatim>\<open>last_err\<close>. A response with status 500 or more raises \<^verbatim>\<open>requests.HTTPError\<close>
  inside the \<^verbatim>\<open>try\<close>; that and every exception of the request are caught by the handler.
  The handler computes the delay, logs the warning and sleeps; an exception of the power
  or of \<^verbatim>\<open>time.sleep\<close> is raised inside the handler and leaves \<^verbatim>\<open>http_request\<close>.
\<close>

definition server_error :: "response \<Rightarrow> exc" where
  "server_error resp =
     RequestException
       (''Server error '' @ str_int (resp_status_code resp) @ '': '' @
        take_chars 500 (resp_text resp))
       None"

text \<open>What one attempt leaves in \<^verbatim>\<open>last_err\<close> when it fails, and \<open>None\<close> when it returns.\<close>

definition failure :: "exc + response \<Rightarrow> exc option" where
  "failure out = (case out of
      Inl e \<Rightarrow> Some e
    | Inr resp \<Rightarrow> if resp_status_code resp \<ge> 500 then Some (server_error resp) else None)"

definition retry_log :: event where
  "retry_log = Log WARNING
     ''{method} {url} failed on attempt {attempt}/{MAX_RETRIES}: {e}. Backing off {sleep_s:.1f}s''"

text \<open>
  The statements of the handler after \<^verbatim>\<open>last_err = e\<close>: \<open>Inl\<close> is an exception raised
  there, with the effects up to it, and \<open>Inr\<close> the effects of a handler that completes.
\<close>

definition back_off :: "(int \<Rightarrow> backoff_result) \<Rightarrow> int \<Rightarrow> trace \<Rightarrow> (exc \<times> trace) + trace" where
  "back_off backoff attempt tr =
     (case backoff (attempt - 1) of
        PowerRaises x \<Rightarrow> Inl (x, tr)
      | SleepRaises x \<Rightarrow> Inl (x, tr @ [retry_log])
      | Slept \<Rightarrow> Inr (tr @ [retry_log, Sleep (attempt - 1)]))"

fun http_attempts ::
  "server \<Rightarrow> (int \<Rightarrow> backoff_result) \<Rightarrow> http_req \<Rightarrow> int list \<Rightarrow> exc option \<Rightarrow> trace \<Rightarrow>
   (exc + response) \<times> trace" where
  "http_attempts srv backoff rq [] last_err tr =
     (case last_err of
        None \<Rightarrow> (Inl AssertionError, tr)
      | Some e \<Rightarrow> (Inl e, tr))"
| "http_attempts srv backoff rq (attempt # rest) last_err tr =
     (case send srv rq tr of
        (Inr resp, tr1) \<Rightarrow>
          if resp_status_code resp \<ge> 500
          then (case back_off backoff attempt tr1 of
                  Inl (x, tr2) \<Rightarrow> (Inl x, tr2)
                | Inr tr2 \<Rightarrow> http_attempts srv backoff rq rest (Some (server_error resp)) tr2)
          else (Inr resp, tr1)
      | (Inl e, tr1) \<Rightarrow>
          (case back_off backoff attempt tr1 of
             Inl (x, tr2) \<Rightarrow> (Inl x, tr2)
           | Inr tr2 \<Rightarrow> http_attempts srv backoff rq rest (Some e) tr2))"

text \<open>The arguments \<^verbatim>\<open>http_request\<close> passes to \<^verbatim>\<open>requests.request\<close>.\<close>

definition request_args ::
  "config \<Rightarrow> string \<Rightarrow> string \<Rightarrow> (string \<times> string) list \<Rightarrow> json option \<Rightarrow> json option \<Rightarrow>
   http_req" where
  "request_args cfg method url headers json_body params =
     \<lparr>req_method = method, req_url = url, req_headers = headers, req_json = json_body,
      req_params = params, req_timeout = HTTP_TIMEOUT cfg\<rparr>"

definition http_request ::
  "server \<Rightarrow> config \<Rightarrow> string \<Rightarrow> string \<Rightarrow> (string \<times> string) list \<Rightarrow> json option \<Rightarrow>
   json option \<Rightarrow> trace \<Rightarrow> (exc + response) \<times> trace" where
  "http_request srv cfg method url headers json_body params tr =
     http_attempts srv (RETRY_BACKOFF cfg) (request_args cfg method url headers json_body params)
       [1 .. MAX_RETRIES cfg] None tr"

text \<open>
  The effects of one failed attempt whose handler completes: the request, the warning and
  the back-off sleep.
\<close>

definition attempt_events :: "http_req \<Rightarrow> int \<Rightarrow> event list" where
  "attempt_events rq attempt = [Request rq, retry_log, Sleep (attempt - 1)]"

section \<open>String helpers\<close>

text \<open>
  \<^verbatim>\<open>str.strip()\<close> and \<^verbatim>\<open>str.lower()\<close>. On a text of ASCII characters they are computed:
  \<^verbatim>\<open>strip\<close> removes the white space of \<^verbatim>\<open>str.isspace\<close> below code point 128 at both ends,
  and \<^verbatim>\<open>lower\<close> turns the letters \<open>A\<close> to \<open>Z\<close> into \<open>a\<close> to \<open>z\<close>. On a text with a character
  outside ASCII they follow the Unicode tables of the interpreter, which the model takes as
  parameters. Lower-casing maps every character to at least one character, so the
  lower-case form of such a text is not empty: the parameter gives its first byte and the
  rest. \<open>contains sub s\<close> is \<^verbatim>\<open>sub in s\<close>.
\<close>

record str_ops =
  u_strip :: "string \<Rightarrow> string"
  u_lower :: "string \<Rightarrow> char \<times> string"

definition is_ascii :: "string \<Rightarrow> bool" where
  "is_ascii s = list_all (\<lambda>c. (of_char c :: nat) < 128) s"

definition whitespace :: "char list" where
  "whitespace = [CHR 0x20, CHR 0x09, CHR 0x0A, CHR 0x0B, CHR 0x0C, CHR 0x0D,
                 CHR 0x1C, CHR 0x1D, CHR 0x1E, CHR 0x1F]"

definition py_strip :: "str_ops \<Rightarrow> string \<Rightarrow> string" where
  "py_strip so s =
     (if is_ascii s
      then rev (dropWhile (\<lambda>c. c \<in> set whitespace)
                  (rev (dropWhile (\<lambda>c. c \<in> set whitespace) s)))
      else u_strip so s)"

definition lower_char :: "char \<Rightarrow> char" where
  "lower_char c =
     (if 65 \<le> (of_char c :: nat) \<and> (of_char c :: nat) \<le> 90
      then char_of ((of_char c :: nat) + 32) else c)"

definition py_lower :: "str_ops \<Rightarrow> string \<Rightarrow> string" where
  "py_lower so s =
     (if is_ascii s then map lower_char s
      else (case u_lower so s of (c, cs) \<Rightarrow> c # cs))"

fun contains :: "string \<Rightarrow> string \<Rightarrow> bool" where
  "contains sub [] = (sub = [])"
| "contains sub (c # cs) = (prefix sub (c # cs) \<or> contains sub cs)"

definition nl :: string where
  "nl = [CHR 0x0A]"

section \<open>Feed records and the report\<close>

subsection \<open>The decoded feed\<close>

text \<open>
  The feed is a protobuf \<^verbatim>\<open>FeedMessage\<close> of the GTFS-realtime bindings. Reading a scalar
  field that is not set gives its default (the empty string, zero); reading a sub-message
  field that is not set gives an empty message, all of whose fields read as defaults;
  \<^verbatim>\<open>HasField\<close> tells whether a sub-message field is set. The model keeps a sub-message
  field as an option (\<open>None\<close>: not set) and a scalar field by the value read.

  Floats are kept abstract: the type \<open>'f\<close> with the operations the program applies to them.
\<close>

record 'f float_ops =
  fl_zero :: 'f                       \<comment> \<open>\<^verbatim>\<open>0.0\<close>\<close>
  fl_round :: "'f \<Rightarrow> nat \<Rightarrow> 'f"        \<comment> \<open>\<^verbatim>\<open>round(x, ndigits)\<close>\<close>
  fl_times_3_6 :: "'f \<Rightarrow> 'f"          \<comment> \<open>\<^verbatim>\<open>x * 3.6\<close>\<close>
  fl_str :: "'f \<Rightarrow> string"            \<comment> \<open>\<^verbatim>\<open>str(x)\<close>, as an f-string field renders it\<close>

record 'f position_msg =
  latitude :: 'f
  longitude :: 'f
  speed :: 'f

record 'f vehicle_position =
  descriptor_id :: string             \<comment> \<open>\<^verbatim>\<open>vehicle.vehicle.id\<close>\<close>
  trip_route_id :: string             \<comment> \<open>\<^verbatim>\<open>vehicle.trip.route_id\<close>\<close>
  position :: "'f position_msg option"

record 'f feed_entity =
  vehicle :: "'f vehicle_position option"

record feed_header =
  timestamp :: nat                    \<comment> \<open>an unsigned integer, 0 when not set\<close>

record 'f feed_message =
  header :: feed_header
  entity :: "'f feed_entity list"

text \<open>\<^verbatim>\<open>vehicle.position\<close>: the message that the attribute access returns.\<close>

definition read_position :: "'f float_ops \<Rightarrow> 'f vehicle_position \<Rightarrow> 'f position_msg" where
  "read_position fo v =
     (case position v of
        Some p \<Rightarrow> p
      | None \<Rightarrow> \<lparr>latitude = fl_zero fo, longitude = fl_zero fo, speed = fl_zero fo\<rparr>)"

text \<open>
  \<^verbatim>\<open>bool(m)\<close> of a protobuf message object \<open>m\<close>. The generated message classes define
  neither \<^verbatim>\<open>__bool__\<close> nor \<^verbatim>\<open>__len__\<close>, so every message object is truthy, the empty
  message read from a field that is not set included.
\<close>

definition message_truthy :: "'m \<Rightarrow> bool" where
  "message_truthy m = True"

subsection \<open>Vehicle records\<close>

text \<open>A value of a vehicle record: a string or a float. The record is a \<^verbatim>\<open>dict\<close>.\<close>

datatype 'f pyval = PStr string | PFloat 'f

type_synonym 'f vehicle_record = "(string \<times> 'f pyval) list"

text \<open>
  The body of the loop of \<^verbatim>\<open>parse_feed\<close> for an entity that has the \<^verbatim>\<open>vehicle\<close> field. The
  test \<^verbatim>\<open>vehicle.position.speed is not None\<close> is applied to a float and holds.
\<close>

definition vehicle_record :: "'f float_ops \<Rightarrow> 'f vehicle_position \<Rightarrow> 'f vehicle_record" where
  "vehicle_record fo v =
     (let train_id = (if descriptor_id v \<noteq> [] then descriptor_id v else ''Unknown'');
          route_id = (if trip_route_id v \<noteq> [] then trip_route_id v else ''Unknown'');
          p = read_position fo v;
          (lat, lon, speed_kmh) =
            (if message_truthy p
             then (PFloat (fl_round fo (latitude p) 6),
                   PFloat (fl_round fo (longitude p) 6),
                   PFloat (fl_round fo (fl_times_3_6 fo (speed p)) 2))
             else (PStr ''Unknown'', PStr ''Unknown'', PStr ''Unknown''))
      in [(''vehicle_id'', PStr train_id), (''route_id'', PStr route_id),
          (''lat'', lat), (''lon'', lon), (''speed_kmh'', speed_kmh)])"

text \<open>The loop over \<^verbatim>\<open>feed.entity\<close>, appending to \<^verbatim>\<open>vehicles\<close>.\<close>

fun collect_vehicles ::
  "'f float_ops \<Rightarrow> 'f feed_entity list \<Rightarrow> 'f vehicle_record list \<Rightarrow> 'f vehicle_record list" where
  "collect_vehicles fo [] vehicles = vehicles"
| "collect_vehicles fo (e # es) vehicles =
     (case vehicle e of
        None \<Rightarrow> collect_vehicles fo es vehicles
      | Some v \<Rightarrow> collect_vehicles fo es (vehicles @ [vehicle_record fo v]))"

definition parse_feed ::
  "'f float_ops \<Rightarrow> 'f feed_message \<Rightarrow> int option \<times> 'f vehicle_record list" where
  "parse_feed fo feed =
     (let feed_ts = (if message_truthy (header feed) \<and> timestamp (header feed) \<noteq> 0
                     then Some (int (timestamp (header feed))) else None)
      in (feed_ts, collect_vehicles fo (entity feed) []))"

subsection \<open>The report\<close>

text \<open>
  \<^verbatim>\<open>format_markdown\<close>. The clock and the time zone conversion are parameters: \<open>now_s\<close> is
  \<^verbatim>\<open>ts_fmt(now_myt())\<close>, and \<open>conv t\<close> is the formatted local time of the epoch second \<open>t\<close>,
  or \<open>None\<close> when the conversion raises. The first line of the report starts with the four
  code points the source file has there, in UTF-8.
\<close>

definition title_icon :: string where
  "title_icon = [CHR 0xEF, CHR 0xA3, CHR 0xBF, CHR 0xC3, CHR 0xBC, CHR 0xC3, CHR 0xB6,
                 CHR 0xC3, CHR 0xA5]"

definition field :: "'f float_ops \<Rightarrow> 'f vehicle_record \<Rightarrow> string \<Rightarrow> string" where
  \<comment> \<open>\<^verbatim>\<open>v.get(key, 'Unknown')\<close>, rendered in an f-string\<close>
  "field fo v key =
     (case map_of v key of
        None \<Rightarrow> ''Unknown''
      | Some (PStr s) \<Rightarrow> s
      | Some (PFloat x) \<Rightarrow> fl_str fo x)"

definition vehicle_block :: "'f float_ops \<Rightarrow> 'f vehicle_record \<Rightarrow> string" where
  "vehicle_block fo v =
     ''  - **Train ID:** '' @ field fo v ''vehicle_id'' @ '' | **Route:** '' @ field fo v ''route_id''
       @ nl @
     ''    - **Location:** `'' @ field fo v ''lat'' @ '', '' @ field fo v ''lon'' @ ''`'' @ nl @
     ''    - **Speed:** '' @ field fo v ''speed_kmh'' @ '' km/h'' @ nl"

fun append_blocks :: "'f float_ops \<Rightarrow> 'f vehicle_record list \<Rightarrow> string \<Rightarrow> string" where
  "append_blocks fo [] task_content = task_content"
| "append_blocks fo (v # vs) task_content = append_blocks fo vs (task_content @ vehicle_block fo v)"

definition format_markdown ::
  "'f float_ops \<Rightarrow> string \<Rightarrow> (int \<Rightarrow> string option) \<Rightarrow> int option \<Rightarrow> 'f vehicle_record list \<Rightarrow>
   string" where
  "format_markdown fo now_s conv feed_ts vehicles =
     (let last_updated =
            (case feed_ts of
               None \<Rightarrow> now_s
             | Some t \<Rightarrow> (case conv t of Some s \<Rightarrow> s | None \<Rightarrow> now_s));
          total = length vehicles;
          task_content = title_icon @ '' **KTM Train Status Live Update**'' @ nl @ nl;
          task_content = task_content @ ''*Last updated: '' @ last_updated @ ''*'' @ nl @ nl
      in if total = 0
         then task_content @ ''No active trains detected at the moment.''
         else append_blocks fo vehicles
                (task_content @ ''Found **'' @ str_nat total @ ''** active trains.'' @ nl @ nl))"

section \<open>The Taskade client\<close>

record client =
  base :: string
  token :: string

definition rstrip_slash :: "string \<Rightarrow> string" where
  \<comment> \<open>\<^verbatim>\<open>base_url.rstrip("/")\<close>\<close>
  "rstrip_slash s = rev (dropWhile (\<lambda>c. c = CHR ''/'') (rev s))"

definition TaskadeClient :: "string \<Rightarrow> string \<Rightarrow> exc + client" where
  "TaskadeClient base_url api_token =
     (if base_url = [] then Inl (ValueError ''TASKADE_BASE_URL is required'')
      else if api_token = [] then Inl (ValueError ''TASKADE_API_TOKEN is required'')
      else Inr \<lparr>base = rstrip_slash base_url, token = api_token\<rparr>)"

definition client_headers :: "client \<Rightarrow> (string \<times> string) list" where
  \<comment> \<open>the property \<^verbatim>\<open>headers\<close>\<close>
  "client_headers c =
     [(''Authorization'', ''Bearer '' @ token c), (''Content-Type'', ''application/json'')]"

text \<open>\<^verbatim>\<open>resp.json()\<close>: raises when the body is not JSON.\<close>

definition json_of :: "response \<Rightarrow> exc + json" where
  "json_of resp =
     (case resp_json resp of
        None \<Rightarrow> Inl (RequestException ''JSONDecodeError'' None)
      | Some v \<Rightarrow> Inr v)"

text \<open>
  Subscription. \<open>subscript_key v k\<close> is \<^verbatim>\<open>v[k]\<close> for a string \<open>k\<close> and \<open>subscript_0 v\<close> is
  \<^verbatim>\<open>v[0]\<close>. The keys of a JSON object are strings, so the key \<^verbatim>\<open>0\<close> is never in it. Of a
  string \<^verbatim>\<open>v[0]\<close> is its first character, again a string.
\<close>

fun subscript_key :: "json \<Rightarrow> string \<Rightarrow> exc + json" where
  "subscript_key (JObj kvs) k = (case map_of kvs k of None \<Rightarrow> Inl (KeyError k) | Some v \<Rightarrow> Inr v)"
| "subscript_key _ k = Inl TypeError"

fun subscript_0 :: "json \<Rightarrow> exc + json" where
  "subscript_0 (JArr xs) = (case xs of [] \<Rightarrow> Inl IndexError | x # _ \<Rightarrow> Inr x)"
| "subscript_0 (JObj kvs) = Inl (KeyError ''0'')"
| "subscript_0 (JStr s) = (case s of [] \<Rightarrow> Inl IndexError | c # _ \<Rightarrow> Inr (JStr [c]))"
| "subscript_0 _ = Inl TypeError"

text \<open>\<^verbatim>\<open>response_data['item'][0]['id']\<close>.\<close>

definition id_path :: "json \<Rightarrow> exc + json" where
  "id_path response_data =
     (case subscript_key response_data ''item'' of
        Inl e \<Rightarrow> Inl e
      | Inr items \<Rightarrow>
          (case subscript_0 items of
             Inl e \<Rightarrow> Inl e
           | Inr first \<Rightarrow> subscript_key first ''id''))"

definition create_task ::
  "server \<Rightarrow> config \<Rightarrow> client \<Rightarrow> string \<Rightarrow> string \<Rightarrow> string option \<Rightarrow> trace \<Rightarrow>
   (exc + json) \<times> trace" where
  "create_task srv cfg c project_id content_md title tr =
     (let url = base c @ ''/projects/'' @ project_id @ ''/tasks'';
          payload = JObj [(''tasks'', JArr [JObj
            [(''taskId'', JNull),
             (''placement'', JStr ''afterbegin''),
             (''contentType'', JStr ''text/markdown''),
             (''content'', JStr content_md),
             (''title'', JStr (case title of
                                None \<Rightarrow> DASHBOARD_TITLE
                              | Some t \<Rightarrow> if t \<noteq> [] then t else DASHBOARD_TITLE))]])];
          tr0 = tr @ [Call ''create_task'', Log INFO ''Creating task at {url}'']
      in case http_request srv cfg ''POST'' url (client_headers c) (Some payload) None tr0 of
           (Inl e, tr1) \<Rightarrow> (Inl e, tr1)
         | (Inr resp, tr1) \<Rightarrow>
             if resp_status_code resp \<noteq> 200 \<and> resp_status_code resp \<noteq> 201
             then (Inl (RuntimeError (''Create task failed: '' @ str_int (resp_status_code resp)
                                        @ '' '' @ resp_text resp)), tr1)
             else
               (case json_of resp of
                  Inl e \<Rightarrow> (Inl e, tr1)
                | Inr response_data \<Rightarrow>
                    (let tr2 = tr1 @ [Log INFO
                           ''DEBUG: Full API Response for Create Task: {json.dumps(response_data, indent=2)}'']
                     in case id_path response_data of
                          Inr task_id \<Rightarrow>
                            (Inr (JObj [(''id'', task_id), (''response'', response_data)]),
                             tr2 @ [Log INFO ''Successfully created task. Task ID: {task_id}''])
                        | Inl (KeyError k) \<Rightarrow>
                            (Inl (KeyError k),
                             tr2 @ [Log ERROR ''Error parsing API response. Key not found: {e}'',
                                    Log ERROR
                                      ''Please check the DEBUG output above to see the actual API response.''])
                        | Inl e \<Rightarrow> (Inl e, tr2))))"

definition update_task ::
  "server \<Rightarrow> config \<Rightarrow> client \<Rightarrow> string \<Rightarrow> string \<Rightarrow> trace \<Rightarrow> (exc + json) \<times> trace" where
  "update_task srv cfg c task_id content_md tr =
     (let url = base c @ ''/tasks/'' @ task_id;
          payload = JObj [(''content'', JStr content_md)];
          tr0 = tr @ [Call ''update_task'', Log INFO ''Updating task {task_id} at {url}'']
      in case http_request srv cfg ''PUT'' url (client_headers c) (Some payload) None tr0 of
           (Inl e, tr1) \<Rightarrow> (Inl e, tr1)
         | (Inr resp, tr1) \<Rightarrow>
             if resp_status_code resp \<noteq> 200 \<and> resp_status_code resp \<noteq> 204
             then (Inl (RuntimeError (''Update task failed: '' @ str_int (resp_status_code resp)
                                        @ '' '' @ resp_text resp)), tr1)
             else (Inr (JObj [(''task_id'', JStr task_id)]),
                   tr1 @ [Log INFO ''Successfully updated task {task_id}'']))"

text \<open>
  \<^verbatim>\<open>list_tasks\<close> returns \<^verbatim>\<open>data["items"]\<close> whatever it is, a list as it is, and the empty
  list for every other shape.
\<close>

definition list_tasks ::
  "server \<Rightarrow> config \<Rightarrow> client \<Rightarrow> string \<Rightarrow> trace \<Rightarrow> (exc + json) \<times> trace" where
  "list_tasks srv cfg c project_id tr =
     (let url = base c @ ''/projects/'' @ project_id @ ''/tasks''
      in case http_request srv cfg ''GET'' url (client_headers c) None None
                (tr @ [Call ''list_tasks'']) of
           (Inl e, tr1) \<Rightarrow> (Inl e, tr1)
         | (Inr resp, tr1) \<Rightarrow>
             if resp_status_code resp \<noteq> 200
             then (Inl (RuntimeError (''List tasks failed: '' @ str_int (resp_status_code resp)
                                        @ '' '' @ resp_text resp)), tr1)
             else
               (case json_of resp of
                  Inl e \<Rightarrow> (Inl e, tr1)
                | Inr data \<Rightarrow>
                    (case data of
                       JObj kvs \<Rightarrow>
                         (case map_of kvs ''items'' of
                            Some items \<Rightarrow> (Inr items, tr1)
                          | None \<Rightarrow> (Inr (JArr []), tr1))
                     | JArr xs \<Rightarrow> (Inr (JArr xs), tr1)
                     | _ \<Rightarrow> (Inr (JArr []), tr1))))"

text \<open>
  \<^verbatim>\<open>len(items)\<close> and the sequence that \<^verbatim>\<open>for it in items\<close> runs over: the elements of a
  list, the keys of a \<^verbatim>\<open>dict\<close>, the characters of a string; anything else raises.
\<close>

fun py_iter :: "json \<Rightarrow> exc + json list" where
  "py_iter (JArr xs) = Inr xs"
| "py_iter (JObj kvs) = Inr (map (\<lambda>kv. JStr (fst kv)) kvs)"
| "py_iter (JStr s) = Inr (map (\<lambda>c. JStr [c]) s)"
| "py_iter _ = Inl TypeError"

text \<open>\<^verbatim>\<open>(it.get("title") or "").strip()\<close>.\<close>

definition item_title :: "str_ops \<Rightarrow> json \<Rightarrow> exc + string" where
  "item_title so it =
     (case dict_get it ''title'' of
        Inl e \<Rightarrow> Inl e
      | Inr v \<Rightarrow>
          (case py_or v (JStr []) of
             JStr s \<Rightarrow> Inr (py_strip so s)
           | _ \<Rightarrow> Inl AttributeError))"

text \<open>The two tests of the loop of \<^verbatim>\<open>find_task_by_title\<close> on the stripped title \<open>t\<close>.\<close>

definition exact_match :: "str_ops \<Rightarrow> string \<Rightarrow> string \<Rightarrow> bool" where
  "exact_match so title t = (py_lower so t = py_lower so title)"

definition keyword_match :: "str_ops \<Rightarrow> string \<Rightarrow> bool" where
  "keyword_match so t =
     (contains ''ktm'' (py_lower so t) \<and> contains ''status'' (py_lower so t) \<and>
      contains ''update'' (py_lower so t))"

text \<open>The loop \<^verbatim>\<open>for it in items\<close> and the statements after it.\<close>

fun scan_items ::
  "str_ops \<Rightarrow> string \<Rightarrow> json list \<Rightarrow> trace \<Rightarrow> (exc + json option) \<times> trace" where
  "scan_items so title [] tr = (Inr None, tr @ [Log INFO ''No matching task found''])"
| "scan_items so title (it # rest) tr =
     (case item_title so it of
        Inl e \<Rightarrow> (Inl e, tr)
      | Inr t \<Rightarrow>
          (let tr1 = tr @ [Log INFO ''Found task with title: {t}'']
           in if exact_match so title t
              then (Inr (Some it), tr1 @ [Log INFO ''Found exact matching task: {t}''])
              else if keyword_match so t
              then (Inr (Some it),
                    tr1 @ [Log INFO ''Found KTM dashboard task by partial match: {t}''])
              else scan_items so title rest tr1))"

definition find_task_by_title ::
  "str_ops \<Rightarrow> server \<Rightarrow> config \<Rightarrow> client \<Rightarrow> string \<Rightarrow> string \<Rightarrow> trace \<Rightarrow>
   (exc + json option) \<times> trace" where
  "find_task_by_title so srv cfg c project_id title tr =
     (case list_tasks srv cfg c project_id (tr @ [Call ''find_task_by_title'']) of
        (Inl e, tr1) \<Rightarrow> (Inl e, tr1)
      | (Inr items, tr1) \<Rightarrow>
          (case py_iter items of
             Inl e \<Rightarrow> (Inl e, tr1)
           | Inr its \<Rightarrow>
               scan_items so title its
                 (tr1 @ [Log INFO ''Searching through {len(items)} tasks for title: {title}''])))"

section \<open>Fetching the feed\<close>

text \<open>
  What a run takes from outside the program: the network, the protobuf decoder
  (\<^verbatim>\<open>ParseFromString\<close> on the bytes of the body, which may raise), the clock and the time
  zone conversion of the report, the float operations, Python's \<^verbatim>\<open>str\<close> on lists and
  dictionaries, and \<^verbatim>\<open>strip\<close> and \<^verbatim>\<open>lower\<close> outside ASCII.
\<close>

record 'f env =
  env_server :: server
  env_decode :: "string \<Rightarrow> exc + 'f feed_message"
  env_now :: string
  env_local_time :: "int \<Rightarrow> string option"
  env_floats :: "'f float_ops"
  env_repr :: "json \<Rightarrow> string"
  env_str :: str_ops

text \<open>
  \<^verbatim>\<open>fetch_gtfs_realtime_feed\<close>: one plain \<^verbatim>\<open>requests.get\<close>, without retry;
  \<^verbatim>\<open>raise_for_status\<close> raises an \<^verbatim>\<open>HTTPError\<close> carrying the response for a status from 400
  to 599.
\<close>

definition get_args :: "config \<Rightarrow> string \<Rightarrow> http_req" where
  \<comment> \<open>\<^verbatim>\<open>requests.get(url, timeout=HTTP_TIMEOUT)\<close>\<close>
  "get_args cfg url =
     \<lparr>req_method = ''GET'', req_url = url, req_headers = [], req_json = None,
      req_params = None, req_timeout = HTTP_TIMEOUT cfg\<rparr>"

definition fetch_gtfs_realtime_feed ::
  "'f env \<Rightarrow> config \<Rightarrow> string \<Rightarrow> trace \<Rightarrow> (exc + 'f feed_message) \<times> trace" where
  "fetch_gtfs_realtime_feed env cfg url tr =
     (case send (env_server env) (get_args cfg url)
             (tr @ [Log INFO ''Fetching GTFS-R feed: {url}'']) of
        (Inl e, tr1) \<Rightarrow> (Inl e, tr1)
      | (Inr resp, tr1) \<Rightarrow>
          if 400 \<le> resp_status_code resp \<and> resp_status_code resp < 600
          then (Inl (RequestException
                       (str_int (resp_status_code resp) @ '' Error for url: '' @ url)
                       (Some (resp_text resp))), tr1)
          else
            (case env_decode env (resp_content resp) of
               Inl e \<Rightarrow> (Inl e, tr1)
             | Inr feed \<Rightarrow> (Inr feed, tr1)))"

section \<open>The orchestrator\<close>

text \<open>\<^verbatim>\<open>str(v)\<close> of a JSON value; of a list or a dictionary it is the parameter \<open>repr\<close>.\<close>

definition py_str :: "(json \<Rightarrow> string) \<Rightarrow> json \<Rightarrow> string" where
  "py_str repr v =
     (case v of
        JStr s \<Rightarrow> s
      | JNull \<Rightarrow> ''None''
      | JBool b \<Rightarrow> (if b then ''True'' else ''False'')
      | JNum n \<Rightarrow> str_int n
      | _ \<Rightarrow> repr v)"

text \<open>\<^verbatim>\<open>str(d.get("id") or d.get("task_id") or "")\<close>.\<close>

definition identifier_of :: "(json \<Rightarrow> string) \<Rightarrow> json \<Rightarrow> exc + string" where
  "identifier_of repr d =
     (case dict_get d ''id'' of
        Inl e \<Rightarrow> Inl e
      | Inr a \<Rightarrow>
          if truthy a then Inr (py_str repr a)
          else
            (case dict_get d ''task_id'' of
               Inl e \<Rightarrow> Inl e
             | Inr b \<Rightarrow> Inr (py_str repr (py_or b (JStr [])))))"

text \<open>The two lines of \<^verbatim>\<open>main\<close> that turn the feed into the content of the task.\<close>

definition render_feed :: "'f env \<Rightarrow> 'f feed_message \<Rightarrow> string" where
  "render_feed env feed =
     (let (feed_ts, vehicles) = parse_feed (env_floats env) feed
      in format_markdown (env_floats env) (env_now env) (env_local_time env) feed_ts vehicles)"

text \<open>The end of the \<^verbatim>\<open>try\<close> block, from the comment \<^verbatim>\<open># Create new task if not found\<close> on.\<close>

definition main_create ::
  "'f env \<Rightarrow> config \<Rightarrow> client \<Rightarrow> string \<Rightarrow> trace \<Rightarrow> (exc + int) \<times> trace" where
  "main_create env cfg c content_md tr =
     (case create_task (env_server env) cfg c (TASKADE_PROJECT_ID cfg) content_md
             (Some DASHBOARD_TITLE)
             (tr @ [Log INFO ''No existing task found. Creating a new dashboard task.'']) of
        (Inl e, tr1) \<Rightarrow> (Inl e, tr1)
      | (Inr created, tr1) \<Rightarrow>
          (case identifier_of (env_repr env) created of
             Inl e \<Rightarrow> (Inl e, tr1)
           | Inr new_id \<Rightarrow>
               if new_id \<noteq> []
               then (Inr 0, tr1 @ [Log INFO ''Created task id={new_id}'',
                                   Print (JObj [(''TASKADE_TASK_ID'', JStr new_id)])])
               else (Inr 0, tr1 @ [Log WARNING
                 ''Task created but could not parse task ID from response. Please inspect API response shape.''])))"

text \<open>
  The body of the \<^verbatim>\<open>try\<close> block of \<^verbatim>\<open>main\<close>: \<open>Inr code\<close> is \<^verbatim>\<open>return code\<close>, \<open>Inl e\<close> is the
  exception that reaches the \<^verbatim>\<open>except\<close> clauses.
\<close>

definition main_try :: "'f env \<Rightarrow> config \<Rightarrow> trace \<Rightarrow> (exc + int) \<times> trace" where
  "main_try env cfg tr =
     (case TaskadeClient TASKADE_BASE_URL (TASKADE_API_TOKEN cfg) of
        Inl e \<Rightarrow> (Inl e, tr)
      | Inr c \<Rightarrow>
          (case fetch_gtfs_realtime_feed env cfg GTFSR_URL
                  (tr @ [Log INFO ''Fetching data from API at {ts_fmt(now_myt())}...'']) of
             (Inl e, tr1) \<Rightarrow> (Inl e, tr1)
           | (Inr feed, tr1) \<Rightarrow>
               (let content_md = render_feed env feed;
                    task_id = (if TASKADE_TASK_ID cfg \<noteq> []
                               then py_strip (env_str env) (TASKADE_TASK_ID cfg)
                               else [])
                in if task_id \<noteq> []
                   then
                     (case update_task (env_server env) cfg c task_id content_md
                             (tr1 @ [Log INFO ''Updating existing Taskade task: {task_id}'']) of
                        (Inl e, tr2) \<Rightarrow> (Inl e, tr2)
                      | (Inr _, tr2) \<Rightarrow> (Inr 0, tr2 @ [Log INFO ''Update complete'']))
                   else
                     (case find_task_by_title (env_str env) (env_server env) cfg c
                             (TASKADE_PROJECT_ID cfg)
                             DASHBOARD_TITLE
                             (tr1 @ [Log INFO
                               ''Searching for existing task titled {DASHBOARD_TITLE} in project {TASKADE_PROJECT_ID}'']) of
                        (Inl e, tr2) \<Rightarrow> (Inl e, tr2)
                      | (Inr None, tr2) \<Rightarrow> main_create env cfg c content_md tr2
                      | (Inr (Some existing), tr2) \<Rightarrow>
                          if \<not> truthy existing then main_create env cfg c content_md tr2
                          else
                            (case identifier_of (env_repr env) existing of
                               Inl e \<Rightarrow> (Inl e, tr2)
                             | Inr discovered_id \<Rightarrow>
                                 if discovered_id = []
                                 then main_create env cfg c content_md
                                        (tr2 @ [Log WARNING
                                          ''Found task by title but could not determine its ID field; updating may not be possible.''])
                                 else
                                   (case update_task (env_server env) cfg c discovered_id content_md
                                           (tr2 @ [Log INFO
                                             ''Found existing task id={discovered_id}; updating.'']) of
                                      (Inl e, tr3) \<Rightarrow> (Inl e, tr3)
                                    | (Inr _, tr3) \<Rightarrow>
                                        (Inr 0, tr3 @ [Print (JObj
                                           [(''TASKADE_TASK_ID'', JStr discovered_id)])])))))))"

text \<open>The three \<^verbatim>\<open>except\<close> clauses of \<^verbatim>\<open>main\<close>: what each one logs before \<^verbatim>\<open>return 1\<close>.\<close>

definition except_events :: "exc \<Rightarrow> event list" where
  "except_events e =
     (case e of
        RequestException msg resp \<Rightarrow>
          Log ERROR ''API Error at {ts_fmt(now_myt())}: {e}'' #
          (case resp of
             None \<Rightarrow> []
           | Some t \<Rightarrow> [Log ERROR ''Error Response: {e.response.text}''])
      | KeyError k \<Rightarrow>
          [Log ERROR ''Error parsing API response. Unexpected structure. Key not found: {e}'',
           Log ERROR ''Please check the DEBUG output above to see the actual API response.'']
      | _ \<Rightarrow>
          [Log ERROR ''An unexpected error occurred at {ts_fmt(now_myt())}: {e}'', Traceback])"

text \<open>\<^verbatim>\<open>main\<close>: the exit code and the effects of the run.\<close>

definition main :: "'f env \<Rightarrow> config \<Rightarrow> trace \<Rightarrow> int \<times> trace" where
  "main env cfg tr =
     (if TASKADE_PROJECT_ID cfg = [] then (2, tr @ [Log ERROR ''TASKADE_PROJECT_ID is required''])
      else if TASKADE_API_TOKEN cfg = []
      then (2, tr @ [Log ERROR ''TASKADE_API_TOKEN is required''])
      else
        (case main_try env cfg tr of
           (Inr code, tr1) \<Rightarrow> (code, tr1)
         | (Inl e, tr1) \<Rightarrow> (1, tr1 @ except_events e)))"

section \<open>Predicates of the statements\<close>

text \<open>
  These definitions are not taken from the program: they say, in the terms of the claims,
  what the theorems below state about it.

  An attempt fails transiently when the request raises or is answered with a status of 500
  or more. The underlying cause of such a failure is the exception of the request, or the
  \<^verbatim>\<open>HTTPError\<close> whose message gives the status and the first 500 characters of the body.
\<close>

definition transient :: "exc + response \<Rightarrow> bool" where
  "transient out = (case out of Inl e \<Rightarrow> True | Inr resp \<Rightarrow> 500 \<le> resp_status_code resp)"

definition cause :: "exc + response \<Rightarrow> exc" where
  "cause out =
     (case out of
        Inl e \<Rightarrow> e
      | Inr resp \<Rightarrow>
          RequestException
            (''Server error '' @ str_int (resp_status_code resp) @ '': '' @
             take_chars 500 (resp_text resp))
            None)"

text \<open>
  The text that a block of the report shows for a key of a record: the string, the float
  as \<^verbatim>\<open>str\<close> prints it, and \<^verbatim>\<open>Unknown\<close> for a key that the record does not have.
\<close>

definition text_of :: "'f float_ops \<Rightarrow> 'f pyval option \<Rightarrow> string" where
  "text_of fo x =
     (case x of
        None \<Rightarrow> ''Unknown''
      | Some (PStr s) \<Rightarrow> s
      | Some (PFloat f) \<Rightarrow> fl_str fo f)"

text \<open>
  A listed task is well titled when it is a dictionary whose \<^verbatim>\<open>title\<close> is absent, a string
  or a falsy value. Its title text is the stripped string, and the empty text when the
  title is not a string. A title text passes for a searched title when the two are equal
  case-insensitively or when it has the three keywords in it, case-insensitively.
\<close>

definition well_titled :: "json \<Rightarrow> bool" where
  "well_titled it =
     (case it of
        JObj kvs \<Rightarrow>
          (case map_of kvs ''title'' of
             None \<Rightarrow> True
           | Some (JStr s) \<Rightarrow> True
           | Some v \<Rightarrow> \<not> truthy v)
      | _ \<Rightarrow> False)"

definition title_text :: "str_ops \<Rightarrow> json \<Rightarrow> string" where
  "title_text so it =
     (case it of
        JObj kvs \<Rightarrow> (case map_of kvs ''title'' of Some (JStr s) \<Rightarrow> py_strip so s | _ \<Rightarrow> [])
      | _ \<Rightarrow> [])"

definition passes :: "str_ops \<Rightarrow> string \<Rightarrow> string \<Rightarrow> bool" where
  "passes so title t =
     (py_lower so t = py_lower so title \<or>
      (sublist ''ktm'' (py_lower so t) \<and> sublist ''status'' (py_lower so t) \<and>
       sublist ''update'' (py_lower so t)))"

text \<open>
  The effects of a run, up to the call of \<^verbatim>\<open>update_task\<close>, when a task identifier is
  configured and the feed has been fetched.
\<close>

definition known_id_trace :: "config \<Rightarrow> trace \<Rightarrow> trace" where
  "known_id_trace cfg tr =
     tr @ [Log INFO ''Fetching data from API at {ts_fmt(now_myt())}...'',
           Log INFO ''Fetching GTFS-R feed: {url}'',
           Request (get_args cfg GTFSR_URL),
           Log INFO ''Updating existing Taskade task: {task_id}'']"



section \<open>Example inputs\<close>

text \<open>
  Concrete configurations and worlds on which the theorems below are instantiated. In
  \<open>cfg3\<close> every back-off sleep completes, as with \<^verbatim>\<open>RETRY_BACKOFF = 1.5\<close>. In
  \<open>cfg_huge_backoff\<close> the first delay, \<^verbatim>\<open>RETRY_BACKOFF ** 0\<close>, is one second and every later
  one is refused by \<^verbatim>\<open>time.sleep\<close> with \<^verbatim>\<open>OverflowError\<close>, as with
  \<^verbatim>\<open>RETRY_BACKOFF = 1e10\<close>.
\<close>

definition cfg3 :: config where
  "cfg3 = \<lparr>TASKADE_API_TOKEN = ''tok'', TASKADE_PROJECT_ID = ''proj'', TASKADE_TASK_ID = [],
     HTTP_TIMEOUT = 20, MAX_RETRIES = 3, RETRY_BACKOFF = (\<lambda>k. Slept)\<rparr>"

definition cfg_huge_backoff :: config where
  "cfg_huge_backoff = \<lparr>TASKADE_API_TOKEN = ''tok'', TASKADE_PROJECT_ID = ''proj'',
     TASKADE_TASK_ID = [], HTTP_TIMEOUT = 20, MAX_RETRIES = 3,
     RETRY_BACKOFF = (\<lambda>k. if k \<le> 0 then Slept else SleepRaises OverflowError)\<rparr>"

definition always_503 :: server where
  "always_503 n rq = Inr \<lparr>resp_status_code = 503, resp_text = ''busy'', resp_content = ''busy'',
     resp_json = None\<rparr>"

definition flaky :: server where
  "flaky n rq = (if n = 0 then Inl (RequestException ''timed out'' None)
     else Inr \<lparr>resp_status_code = 404, resp_text = ''no'', resp_content = ''no'', resp_json = None\<rparr>)"

text \<open>
  Floats written as \<^verbatim>\<open>str\<close> prints them, for reports; and an environment over a
  one-element type of floats, whose decoder returns the feed without entities, so that no
  float operation is ever applied. The examples use ASCII text only, so the string
  operations outside ASCII are never applied either.
\<close>

definition printed_floats :: "string float_ops" where
  "printed_floats = \<lparr>fl_zero = ''0.0'', fl_round = (\<lambda>x n. x), fl_times_3_6 = (\<lambda>x. x),
     fl_str = (\<lambda>x. x)\<rparr>"

definition train_1 :: "string vehicle_record" where
  "train_1 = [(''vehicle_id'', PStr ''EMU01''), (''route_id'', PStr ''KB''),
     (''lat'', PFloat ''3.139''), (''lon'', PFloat ''101.6869''), (''speed_kmh'', PFloat ''54.0'')]"

definition train_2 :: "string vehicle_record" where
  "train_2 = [(''vehicle_id'', PStr ''EMU02''), (''lat'', PStr ''Unknown''),
     (''lon'', PStr ''Unknown''), (''speed_kmh'', PStr ''Unknown'')]"

definition ascii_text :: str_ops where
  "ascii_text = \<lparr>u_strip = (\<lambda>s. s), u_lower = (\<lambda>s. (CHR ''?'', s))\<rparr>"

definition unit_floats :: "unit float_ops" where
  "unit_floats = \<lparr>fl_zero = (), fl_round = (\<lambda>x n. x), fl_times_3_6 = (\<lambda>x. x),
     fl_str = (\<lambda>x. ''0.0'')\<rparr>"

definition empty_feed :: "unit feed_message" where
  "empty_feed = \<lparr>header = \<lparr>timestamp = 0\<rparr>, entity = []\<rparr>"

definition env_with :: "server \<Rightarrow> unit env" where
  "env_with srv =
     \<lparr>env_server = srv, env_decode = (\<lambda>bytes. Inr empty_feed),
      env_now = ''2025-01-01 08:00:00 +08'', env_local_time = (\<lambda>t. None),
      env_floats = unit_floats, env_repr = (\<lambda>v. ''[...]''), env_str = ascii_text\<rparr>"

definition cfg_no_token :: config where
  "cfg_no_token = \<lparr>TASKADE_API_TOKEN = [], TASKADE_PROJECT_ID = ''proj'', TASKADE_TASK_ID = [],
     HTTP_TIMEOUT = 20, MAX_RETRIES = 3, RETRY_BACKOFF = (\<lambda>k. Slept)\<rparr>"

definition cfg_known_id :: config where
  "cfg_known_id = \<lparr>TASKADE_API_TOKEN = ''tok'', TASKADE_PROJECT_ID = ''proj'',
     TASKADE_TASK_ID = '' t1 '', HTTP_TIMEOUT = 20, MAX_RETRIES = 3,
     RETRY_BACKOFF = (\<lambda>k. Slept)\<rparr>"

definition ok_response :: "json option \<Rightarrow> response" where
  "ok_response body =
     \<lparr>resp_status_code = 200, resp_text = [], resp_content = [], resp_json = body\<rparr>"

text \<open>The feed is served; every later request is answered with 404.\<close>

definition feed_then_404 :: server where
  "feed_then_404 n rq =
     (if n = 0 then Inr (ok_response None)
      else Inr \<lparr>resp_status_code = 404, resp_text = ''not found'', resp_content = [],
                resp_json = None\<rparr>)"

text \<open>
  Every \<^verbatim>\<open>POST\<close> is answered with status 200 and the JSON value \<open>created\<close>, the request
  for the feed with status 200, and every other request (the list of tasks, an update) with
  status 200 and the JSON value \<open>tasks\<close>.
\<close>

definition taskade :: "json \<Rightarrow> json \<Rightarrow> server" where
  "taskade tasks created n rq =
     (if req_method rq = ''POST'' then Inr (ok_response (Some created))
      else if req_url rq = GTFSR_URL then Inr (ok_response None)
      else Inr (ok_response (Some tasks)))"

definition list_server :: "json \<Rightarrow> server" where
  "list_server data n rq =
     Inr \<lparr>resp_status_code = 200, resp_text = [], resp_content = [], resp_json = Some data\<rparr>"

definition client0 :: client where
  "client0 = \<lparr>base = TASKADE_BASE_URL, token = ''tok''\<rparr>"

definition item_a :: json where
  "item_a = JObj [(''id'', JStr ''a''), (''title'', JStr ''KTM status update notes'')]"

definition item_b :: json where
  "item_b = JObj [(''id'', JStr ''b''), (''title'', JStr '' Plan '')]"

definition item_plan :: json where
  "item_plan = JObj [(''id'', JStr ''p''), (''title'', JStr ''Plan'')]"

definition item_untitled :: json where
  "item_untitled = JObj [(''id'', JStr ''u'')]"

text \<open>
  A listed task with the dashboard title and no identifier, and three answers to the
  creation request: with an identifier, without the key \<^verbatim>\<open>item\<close>, with an empty \<^verbatim>\<open>item\<close>.
\<close>

definition dashboard_without_id :: json where
  "dashboard_without_id = JObj [(''title'', JStr ''KTM Train Status Live Update'')]"

definition created_n1 :: json where
  "created_n1 = JObj [(''item'', JArr [JObj [(''id'', JStr ''n1'')]])]"

definition created_empty :: json where
  "created_empty = JObj []"

definition created_no_items :: json where
  "created_no_items = JObj [(''item'', JArr [])]"


section \<open>Properties of the retrying HTTP client\<close>

lemma nreqs_append: "nreqs (tr @ es) = nreqs tr + nreqs es"
  by (simp add: nreqs_def)

lemma nreqs_simps: "nreqs [] = 0" "nreqs (e # es) = (if is_request e then 1 else 0) + nreqs es"
  by (simp_all add: nreqs_def)

lemma calls_append: "calls f (tr @ es) = calls f tr + calls f es"
  by (simp add: calls_def)

lemma failure_transient: "transient out \<Longrightarrow> failure out = Some (cause out)"
  by (cases out) (simp_all add: transient_def failure_def cause_def server_error_def)

lemma failure_cases:
  "failure out = None \<Longrightarrow> \<exists>r. out = Inr r \<and> resp_status_code r < 500"
  by (cases out) (auto simp: failure_def split: if_splits)

lemma back_off_Slept:
  "backoff (a - 1) = Slept \<Longrightarrow> back_off backoff a tr = Inr (tr @ [retry_log, Sleep (a - 1)])"
  by (simp add: back_off_def)

lemma attempt_failed:
  assumes "failure (srv (nreqs tr) rq) = Some e"
  shows "http_attempts srv backoff rq (a # as) le tr =
           (case back_off backoff a (tr @ [Request rq]) of
              Inl (x, tr2) \<Rightarrow> (Inl x, tr2)
            | Inr tr2 \<Rightarrow> http_attempts srv backoff rq as (Some e) tr2)"
  using assms
  by (cases "srv (nreqs tr) rq") (auto simp: send_def failure_def split: if_splits)

lemma attempt_events_fun:
  "attempt_events rq = (\<lambda>a. [Request rq, retry_log, Sleep (a - 1)])"
  by (rule ext) (simp add: attempt_events_def)

lemma attempts_all_fail:
  assumes "\<forall>n. transient (srv n rq)"
  shows "\<forall>a\<in>set as. backoff (a - 1) = Slept \<Longrightarrow>
     http_attempts srv backoff rq as le tr =
       ((if as = [] then (case le of None \<Rightarrow> Inl AssertionError | Some e \<Rightarrow> Inl e)
         else Inl (cause (srv (nreqs tr + length as - 1) rq))),
        tr @ concat (map (attempt_events rq) as))"
proof (induction as arbitrary: le tr)
  case Nil
  then show ?case by (simp split: option.splits)
next
  case (Cons a as)
  let ?tr1 = "(tr @ [Request rq]) @ [retry_log, Sleep (a - 1)]"
  from assms have f: "failure (srv (nreqs tr) rq) = Some (cause (srv (nreqs tr) rq))"
    by (simp add: failure_transient)
  from Cons.prems have b: "back_off backoff a (tr @ [Request rq]) = Inr ?tr1"
    by (simp add: back_off_Slept)
  have step: "http_attempts srv backoff rq (a # as) le tr =
      http_attempts srv backoff rq as (Some (cause (srv (nreqs tr) rq))) ?tr1"
    by (simp only: attempt_failed [where srv = srv and tr = tr and rq = rq, OF f] b sum.case)
  have n1: "nreqs ?tr1 = nreqs tr + 1"
    by (simp add: nreqs_append nreqs_simps retry_log_def)
  from Cons.prems have rest: "\<forall>a\<in>set as. backoff (a - 1) = Slept" by simp
  show ?case
    unfolding step Cons.IH [OF rest] n1
    by (cases as) (simp_all add: attempt_events_fun)
qed

lemma attempts_returns:
  "http_attempts srv backoff rq as le tr = (Inr resp, tr') \<Longrightarrow>
   \<exists>k. k < length as \<and> srv (nreqs tr + k) rq = Inr resp \<and> resp_status_code resp < 500 \<and>
       (\<forall>j<k. failure (srv (nreqs tr + j) rq) \<noteq> None) \<and>
       tr' = tr @ concat (map (attempt_events rq) (take k as)) @ [Request rq]"
proof (induction as arbitrary: le tr)
  case Nil
  then show ?case by (simp split: option.splits)
next
  case (Cons a as)
  let ?tr1 = "(tr @ [Request rq]) @ [retry_log, Sleep (a - 1)]"
  have n1: "nreqs ?tr1 = nreqs tr + 1"
    by (simp add: nreqs_append nreqs_simps retry_log_def)
  show ?case
  proof (cases "failure (srv (nreqs tr) rq)")
    case None
    then obtain r where r: "srv (nreqs tr) rq = Inr r" "resp_status_code r < 500"
      by (auto dest: failure_cases)
    with Cons.prems have "resp = r" "tr' = tr @ [Request rq]"
      by (simp_all add: send_def)
    with r have "0 < length (a # as) \<and> srv (nreqs tr + 0) rq = Inr resp \<and>
       resp_status_code resp < 500 \<and> (\<forall>j<0. failure (srv (nreqs tr + j) rq) \<noteq> None) \<and>
       tr' = tr @ concat (map (attempt_events rq) (take 0 (a # as))) @ [Request rq]"
      by simp
    then show ?thesis by blast
  next
    case (Some e)
    have b: "back_off backoff a (tr @ [Request rq]) = Inr ?tr1"
    proof (cases "backoff (a - 1)")
      case Slept
      then show ?thesis by (simp add: back_off_Slept)
    next
      case (PowerRaises x)
      with Cons.prems [unfolded attempt_failed [where srv = srv and tr = tr and rq = rq, OF Some]]
      show ?thesis by (simp add: back_off_def)
    next
      case (SleepRaises x)
      with Cons.prems [unfolded attempt_failed [where srv = srv and tr = tr and rq = rq, OF Some]]
      show ?thesis by (simp add: back_off_def)
    qed
    have step: "http_attempts srv backoff rq (a # as) le tr =
        http_attempts srv backoff rq as (Some e) ?tr1"
      by (simp only: attempt_failed [where srv = srv and tr = tr and rq = rq, OF Some] b
          sum.case)
    with Cons.prems have "http_attempts srv backoff rq as (Some e) ?tr1 = (Inr resp, tr')"
      by simp
    from Cons.IH [OF this] n1 obtain k where k: "k < length as"
      "srv (nreqs tr + 1 + k) rq = Inr resp" "resp_status_code resp < 500"
      "\<forall>j<k. failure (srv (nreqs tr + 1 + j) rq) \<noteq> None"
      "tr' = ?tr1 @ concat (map (attempt_events rq) (take k as)) @ [Request rq]"
      by auto
    have prev: "\<forall>j<Suc k. failure (srv (nreqs tr + j) rq) \<noteq> None"
    proof (intro allI impI)
      fix j assume "j < Suc k"
      show "failure (srv (nreqs tr + j) rq) \<noteq> None"
      proof (cases j)
        case 0
        then show ?thesis using Some by simp
      next
        case (Suc i)
        with \<open>j < Suc k\<close> k(4) show ?thesis by simp
      qed
    qed
    have "Suc k < length (a # as) \<and> srv (nreqs tr + Suc k) rq = Inr resp \<and>
       resp_status_code resp < 500 \<and> (\<forall>j<Suc k. failure (srv (nreqs tr + j) rq) \<noteq> None) \<and>
       tr' = tr @ concat (map (attempt_events rq) (take (Suc k) (a # as))) @ [Request rq]"
      using k prev by (simp add: attempt_events_def)
    then show ?thesis by blast
  qed
qed

lemma nreqs_attempt_events: "nreqs (concat (map (attempt_events rq) as)) = length as"
  by (induction as) (simp_all add: nreqs_simps attempt_events_def retry_log_def)

text \<open>
  Claim C5, amended. When \<^verbatim>\<open>MAX_RETRIES\<close> is at least 1 (the constraint of the component),
  every attempt fails transiently, that is, the world answers each one with an exception or
  with a status of 500 or more, and every back-off sleep of the call completes,
  \<^verbatim>\<open>http_request\<close> raises: it makes exactly \<^verbatim>\<open>MAX_RETRIES\<close> requests, each failed attempt
  number \<open>a\<close> is followed by the warning and by the sleep of \<^verbatim>\<open>RETRY_BACKOFF ** (a - 1)\<close>
  seconds, so that consecutive attempts are separated by that sleep, and the exception
  raised is the underlying cause of the last attempt's failure.
\<close>

theorem http_request_exhausts_retries:
  assumes "1 \<le> MAX_RETRIES cfg"
    and "\<forall>n. transient (srv n (request_args cfg method url headers json_body params))"
    and "\<forall>k. 0 \<le> k \<and> k < MAX_RETRIES cfg \<longrightarrow> RETRY_BACKOFF cfg k = Slept"
  shows "http_request srv cfg method url headers json_body params tr =
     (Inl (cause (srv (nreqs tr + nat (MAX_RETRIES cfg) - 1)
                    (request_args cfg method url headers json_body params))),
      tr @ concat (map (\<lambda>a. [Request (request_args cfg method url headers json_body params),
                              retry_log, Sleep (a - 1)])
                    [1 .. MAX_RETRIES cfg])) \<and>
     nreqs (snd (http_request srv cfg method url headers json_body params tr)) =
       nreqs tr + nat (MAX_RETRIES cfg)"
proof -
  let ?rq = "request_args cfg method url headers json_body params"
  let ?as = "[1 .. MAX_RETRIES cfg]"
  have ne: "?as \<noteq> []" using assms(1) by (simp add: upto.simps)
  have len: "length ?as = nat (MAX_RETRIES cfg)" by simp
  have sl: "\<forall>a\<in>set ?as. RETRY_BACKOFF cfg (a - 1) = Slept"
    using assms(3) by simp
  have r: "http_attempts srv (RETRY_BACKOFF cfg) ?rq ?as None tr =
      (Inl (cause (srv (nreqs tr + nat (MAX_RETRIES cfg) - 1) ?rq)),
       tr @ concat (map (attempt_events ?rq) ?as))"
    using attempts_all_fail [where srv = srv and rq = ?rq and backoff = "RETRY_BACKOFF cfg"
        and as = ?as and le = None and tr = tr, OF assms(2) sl] ne
    by (simp only: len if_False)
  have n: "nreqs (tr @ concat (map (attempt_events ?rq) ?as)) = nreqs tr + nat (MAX_RETRIES cfg)"
    by (simp only: nreqs_append nreqs_attempt_events len)
  show ?thesis
    unfolding http_request_def r using n by (simp add: attempt_events_fun)
qed

lemma upto_1_3: "[1 .. 3] = [1, 2, 3 :: int]"
  by (simp add: upto_rec1)

lemma str_503: "str_int 503 = ''503''"
  by (simp add: str_int_def str_nat.simps)

lemma take_busy: "take_chars 500 ''busy'' = ''busy''"
  by code_simp

theorem http_request_exhausts_retries_witness:
  "http_request always_503 cfg3 ''GET'' ''u'' [] None None [] =
     (Inl (RequestException ''Server error 503: busy'' None),
      [Request (request_args cfg3 ''GET'' ''u'' [] None None), retry_log, Sleep 0,
       Request (request_args cfg3 ''GET'' ''u'' [] None None), retry_log, Sleep 1,
       Request (request_args cfg3 ''GET'' ''u'' [] None None), retry_log, Sleep 2])"
proof -
  have a: "1 \<le> MAX_RETRIES cfg3" by (simp add: cfg3_def)
  have b: "\<forall>n. transient (always_503 n (request_args cfg3 ''GET'' ''u'' [] None None))"
    by (simp add: always_503_def transient_def)
  have c: "\<forall>k. 0 \<le> k \<and> k < MAX_RETRIES cfg3 \<longrightarrow> RETRY_BACKOFF cfg3 k = Slept"
    by (simp add: cfg3_def)
  have m: "MAX_RETRIES cfg3 = 3" by (simp add: cfg3_def)
  have "http_request always_503 cfg3 ''GET'' ''u'' [] None None [] =
     (Inl (cause (always_503 (nreqs [] + nat (MAX_RETRIES cfg3) - 1)
                    (request_args cfg3 ''GET'' ''u'' [] None None))),
      [] @ concat (map (\<lambda>a. [Request (request_args cfg3 ''GET'' ''u'' [] None None),
                              retry_log, Sleep (a - 1)])
                    [1 .. MAX_RETRIES cfg3])) \<and>
     nreqs (snd (http_request always_503 cfg3 ''GET'' ''u'' [] None None [])) =
       nreqs [] + nat (MAX_RETRIES cfg3)"
    using a b c by (rule http_request_exhausts_retries)
  then show ?thesis
    by (simp add: m upto_1_3 always_503_def cause_def str_503 take_busy)
qed

text \<open>
  Claim C5 as stated fails: with every attempt answered 503 and a back-off whose second
  delay \<^verbatim>\<open>time.sleep\<close> refuses, the call makes two requests, not \<^verbatim>\<open>MAX_RETRIES = 3\<close>, and what
  it raises is the \<^verbatim>\<open>OverflowError\<close> of the sleep, not the failure of an attempt.
\<close>

theorem http_request_exhausts_retries_counterexample:
  "MAX_RETRIES cfg_huge_backoff = 3 \<and>
   transient (always_503 0 (request_args cfg_huge_backoff ''GET'' ''u'' [] None None)) \<and>
   transient (always_503 1 (request_args cfg_huge_backoff ''GET'' ''u'' [] None None)) \<and>
   http_request always_503 cfg_huge_backoff ''GET'' ''u'' [] None None [] =
     (Inl OverflowError,
      [Request (request_args cfg_huge_backoff ''GET'' ''u'' [] None None), retry_log, Sleep 0,
       Request (request_args cfg_huge_backoff ''GET'' ''u'' [] None None), retry_log])"
  by (simp add: http_request_def cfg_huge_backoff_def upto_1_3 always_503_def transient_def
      send_def back_off_def)

text \<open>
  Claim C9. When \<^verbatim>\<open>http_request\<close> returns a response, its status is below 500; it is the
  answer to some attempt \<open>k + 1\<close> within the bound, every earlier attempt of the call failed
  transiently (so this is the first attempt with a status below 500, 4xx included), and the
  request of that attempt is the last effect of the call: nothing is retried, logged or
  slept afterwards.
\<close>

theorem http_request_returns_first_success:
  assumes "http_request srv cfg method url headers json_body params tr = (Inr resp, tr')"
  shows "resp_status_code resp < 500 \<and>
    (\<exists>k. k < nat (MAX_RETRIES cfg) \<and>
       srv (nreqs tr + k) (request_args cfg method url headers json_body params) = Inr resp \<and>
       (\<forall>j<k. failure (srv (nreqs tr + j) (request_args cfg method url headers json_body params))
                \<noteq> None) \<and>
       tr' = tr @ concat (map (attempt_events (request_args cfg method url headers json_body params))
                            (take k [1 .. MAX_RETRIES cfg]))
                @ [Request (request_args cfg method url headers json_body params)])"
  using attempts_returns [OF assms [unfolded http_request_def]] by auto

lemma flaky_run:
  "http_request flaky cfg3 ''GET'' ''u'' [] None None [] =
     (Inr \<lparr>resp_status_code = 404, resp_text = ''no'', resp_content = ''no'', resp_json = None\<rparr>,
      [Request (request_args cfg3 ''GET'' ''u'' [] None None), retry_log, Sleep 0,
       Request (request_args cfg3 ''GET'' ''u'' [] None None)])"
  by (simp add: http_request_def cfg3_def upto_1_3 flaky_def send_def nreqs_def retry_log_def
      back_off_def)

theorem http_request_returns_first_success_witness:
  "http_request flaky cfg3 ''GET'' ''u'' [] None None [] =
     (Inr \<lparr>resp_status_code = 404, resp_text = ''no'', resp_content = ''no'', resp_json = None\<rparr>,
      [Request (request_args cfg3 ''GET'' ''u'' [] None None), retry_log, Sleep 0,
       Request (request_args cfg3 ''GET'' ''u'' [] None None)]) \<and>
   resp_status_code \<lparr>resp_status_code = 404, resp_text = ''no'', resp_content = ''no'',
     resp_json = None\<rparr> < 500"
  using http_request_returns_first_success [OF flaky_run] flaky_run by simp


section \<open>Properties of the report and of the record extractor\<close>

lemma append_blocks_concat:
  "append_blocks fo vs task_content = task_content @ concat (map (vehicle_block fo) vs)"
  by (induction vs arbitrary: task_content) simp_all

lemma field_text_of: "field fo v key = text_of fo (map_of v key)"
  by (simp add: field_def text_of_def split: option.splits pyval.splits)

text \<open>
  Claim C7. For every timestamp and every sequence of records the report is: the title
  line, the line \<^verbatim>\<open>*Last updated: ...*\<close>, and then, for the empty sequence, the line
  \<^verbatim>\<open>No active trains detected at the moment.\<close> and nothing else; for a non-empty sequence,
  the line with the number of records followed by exactly one block per record, in the
  order of the sequence and with no record left out, each block giving the text of the
  identifier, of the route, of the two coordinates and of the speed of its record.
\<close>

theorem format_markdown_layout:
  "format_markdown fo now_s conv feed_ts vehicles =
     title_icon @ '' **KTM Train Status Live Update**'' @ nl @ nl @
     ''*Last updated: '' @
       (case feed_ts of
          None \<Rightarrow> now_s
        | Some t \<Rightarrow> (case conv t of Some s \<Rightarrow> s | None \<Rightarrow> now_s)) @ ''*'' @ nl @ nl @
     (if vehicles = [] then ''No active trains detected at the moment.''
      else ''Found **'' @ str_nat (length vehicles) @ ''** active trains.'' @ nl @ nl @
           concat (map (\<lambda>v.
             ''  - **Train ID:** '' @ text_of fo (map_of v ''vehicle_id'') @
             '' | **Route:** '' @ text_of fo (map_of v ''route_id'') @ nl @
             ''    - **Location:** `'' @ text_of fo (map_of v ''lat'') @ '', '' @
             text_of fo (map_of v ''lon'') @ ''`'' @ nl @
             ''    - **Speed:** '' @ text_of fo (map_of v ''speed_kmh'') @ '' km/h'' @ nl)
             vehicles))"
proof -
  have blk: "vehicle_block fo = (\<lambda>v.
             ''  - **Train ID:** '' @ text_of fo (map_of v ''vehicle_id'') @
             '' | **Route:** '' @ text_of fo (map_of v ''route_id'') @ nl @
             ''    - **Location:** `'' @ text_of fo (map_of v ''lat'') @ '', '' @
             text_of fo (map_of v ''lon'') @ ''`'' @ nl @
             ''    - **Speed:** '' @ text_of fo (map_of v ''speed_kmh'') @ '' km/h'' @ nl)"
    by (rule ext) (simp add: vehicle_block_def field_text_of)
  show ?thesis
    unfolding format_markdown_def Let_def append_blocks_concat blk
    by (cases vehicles) simp_all
qed

lemma str_2: "str_nat (Suc (Suc 0)) = ''2''"
  by (simp add: str_nat.simps)

theorem format_markdown_layout_witness:
  "format_markdown printed_floats ''2025-01-01 08:00:00 +08'' (\<lambda>t. None) None [] =
     title_icon @ '' **KTM Train Status Live Update**'' @ nl @ nl @
     ''*Last updated: 2025-01-01 08:00:00 +08*'' @ nl @ nl @
     ''No active trains detected at the moment.'' \<and>
   format_markdown printed_floats ''2025-01-01 08:00:00 +08'' (\<lambda>t. Some ''2024-12-31 23:59:59 +08'')
       (Some 1735660799) [train_1, train_2] =
     title_icon @ '' **KTM Train Status Live Update**'' @ nl @ nl @
     ''*Last updated: 2024-12-31 23:59:59 +08*'' @ nl @ nl @
     ''Found **2** active trains.'' @ nl @ nl @
     ''  - **Train ID:** EMU01 | **Route:** KB'' @ nl @
     ''    - **Location:** `3.139, 101.6869`'' @ nl @
     ''    - **Speed:** 54.0 km/h'' @ nl @
     ''  - **Train ID:** EMU02 | **Route:** Unknown'' @ nl @
     ''    - **Location:** `Unknown, Unknown`'' @ nl @
     ''    - **Speed:** Unknown km/h'' @ nl"
  using format_markdown_layout [of printed_floats "''2025-01-01 08:00:00 +08''" "\<lambda>t. None" None "[]"]
    format_markdown_layout [of printed_floats "''2025-01-01 08:00:00 +08''"
      "\<lambda>t. Some ''2024-12-31 23:59:59 +08''" "Some 1735660799" "[train_1, train_2]"]
  by (simp add: text_of_def printed_floats_def train_1_def train_2_def str_2)

text \<open>
  Claim C8. When the API token or the project identifier is empty, \<^verbatim>\<open>main\<close> returns 2 and
  its only effect is one error log: no request is made.
\<close>

theorem main_missing_config:
  assumes "TASKADE_API_TOKEN cfg = [] \<or> TASKADE_PROJECT_ID cfg = []"
  shows "fst (main env cfg tr) = 2 \<and>
         (\<exists>msg. snd (main env cfg tr) = tr @ [Log ERROR msg]) \<and>
         nreqs (snd (main env cfg tr)) = nreqs tr"
  using assms by (auto simp: main_def nreqs_def)

theorem main_missing_config_witness:
  "fst (main (env_with always_503) cfg_no_token []) = 2 \<and>
   snd (main (env_with always_503) cfg_no_token []) = [Log ERROR ''TASKADE_API_TOKEN is required'']"
proof -
  have h: "TASKADE_API_TOKEN cfg_no_token = [] \<or> TASKADE_PROJECT_ID cfg_no_token = []"
    by (simp add: cfg_no_token_def)
  from main_missing_config [OF h, of "env_with always_503" "[]"] show ?thesis
    by (auto simp: main_def cfg_no_token_def)
qed

text \<open>
  Claim C4, evaluated on a feed with one entity that has the \<^verbatim>\<open>vehicle\<close> field and no
  \<^verbatim>\<open>position\<close>: the test \<^verbatim>\<open>if vehicle.position:\<close> is applied to a message object and
  holds, so the record gets the rounded default coordinates and speed, not the marker
  \<^verbatim>\<open>"Unknown"\<close>.
\<close>

theorem parse_feed_missing_position:
  "parse_feed fo
     \<lparr>header = \<lparr>timestamp = 0\<rparr>,
      entity = [\<lparr>vehicle = Some \<lparr>descriptor_id = ''T1'', trip_route_id = ''R1'',
                                 position = None\<rparr>\<rparr>]\<rparr> =
   (None,
    [[(''vehicle_id'', PStr ''T1''), (''route_id'', PStr ''R1''),
      (''lat'', PFloat (fl_round fo (fl_zero fo) 6)),
      (''lon'', PFloat (fl_round fo (fl_zero fo) 6)),
      (''speed_kmh'', PFloat (fl_round fo (fl_times_3_6 fo (fl_zero fo)) 2))]])"
  by (simp add: parse_feed_def vehicle_record_def read_position_def message_truthy_def)


section \<open>Properties of the title search\<close>

lemma contains_sublist: "contains sub s = sublist sub s"
  by (induction s) (simp_all add: sublist_Cons_right)

lemma py_strip_Nil: "py_strip so [] = []"
  by (simp add: py_strip_def is_ascii_def)

lemma py_lower_Nil: "py_lower so [] = []"
  by (simp add: py_lower_def is_ascii_def)

lemma py_lower_eq_Nil: "py_lower so s = [] \<longleftrightarrow> s = []"
  by (cases "is_ascii s") (auto simp: py_lower_def is_ascii_def split: prod.splits)

lemma passes_tests: "passes so title t = (exact_match so title t \<or> keyword_match so t)"
  by (simp add: passes_def exact_match_def keyword_match_def contains_sublist)

lemma item_title_well_titled:
  "well_titled it \<Longrightarrow> item_title so it = Inr (title_text so it)"
  by (cases it)
     (auto simp: well_titled_def item_title_def title_text_def py_or_def py_strip_Nil
           split: option.splits json.splits)

lemma scan_items_first_match:
  "list_all well_titled items \<Longrightarrow>
   fst (scan_items so title items tr) =
     Inr (find (\<lambda>it. passes so title (title_text so it)) items)"
proof (induction items arbitrary: tr)
  case Nil
  then show ?case by simp
next
  case (Cons it items)
  then have t: "item_title so it = Inr (title_text so it)"
    by (simp add: item_title_well_titled)
  from Cons have rest: "\<And>tr. fst (scan_items so title items tr) =
      Inr (find (\<lambda>it. passes so title (title_text so it)) items)"
    by simp
  show ?case using t rest by (simp add: passes_tests Let_def)
qed

text \<open>
  Claim C2, amended. When \<^verbatim>\<open>list_tasks\<close> returns a list of well titled items,
  \<^verbatim>\<open>find_task_by_title\<close> returns the first item of the list whose stripped title equals the
  given title case-insensitively or contains the three keywords \<^verbatim>\<open>ktm\<close>, \<^verbatim>\<open>status\<close> and
  \<^verbatim>\<open>update\<close> case-insensitively, whichever of the two tests it passes, and \<^verbatim>\<open>None\<close> when
  no item passes either test.
\<close>

theorem find_task_by_title_first_match:
  assumes "list_tasks srv cfg c project_id (tr @ [Call ''find_task_by_title'']) =
             (Inr (JArr items), tr1)"
    and "list_all well_titled items"
  shows "fst (find_task_by_title so srv cfg c project_id title tr) =
           Inr (find (\<lambda>it. passes so title (title_text so it)) items)"
  using assms by (simp add: find_task_by_title_def scan_items_first_match)

lemma keyword_match_Nil: "\<not> keyword_match so []"
  by (simp add: keyword_match_def py_lower_Nil)

text \<open>
  Claim C10, amended. An item whose \<^verbatim>\<open>title\<close> is absent or \<^verbatim>\<open>None\<close> does not make the loop
  of \<^verbatim>\<open>find_task_by_title\<close> fail: its title is the empty string, which never passes the
  keyword test. When the searched title is not empty the item passes neither test and the
  loop goes on with the rest of the list; when the searched title is empty the item is an
  exact match and is returned.
\<close>

theorem scan_items_untitled_item:
  assumes "map_of kvs ''title'' = None \<or> map_of kvs ''title'' = Some JNull"
  shows "item_title so (JObj kvs) = Inr [] \<and>
         \<not> keyword_match so [] \<and>
         (title \<noteq> [] \<longrightarrow> \<not> exact_match so title []) \<and>
         scan_items so title (JObj kvs # rest) tr =
           (if title = []
            then (Inr (Some (JObj kvs)),
                  tr @ [Log INFO ''Found task with title: {t}'',
                        Log INFO ''Found exact matching task: {t}''])
            else scan_items so title rest (tr @ [Log INFO ''Found task with title: {t}'']))"
proof -
  have t: "item_title so (JObj kvs) = Inr []"
    using assms by (auto simp: item_title_def py_or_def py_strip_Nil)
  have e: "exact_match so title [] \<longleftrightarrow> title = []"
    using py_lower_eq_Nil [of so title] by (auto simp: exact_match_def py_lower_Nil)
  show ?thesis
    using t by (simp add: e keyword_match_Nil Let_def)
qed

lemma strip_ascii:
  "is_ascii s \<Longrightarrow>
   py_strip so s = rev (dropWhile (\<lambda>c. c \<in> set whitespace)
                          (rev (dropWhile (\<lambda>c. c \<in> set whitespace) s)))"
  by (simp add: py_strip_def)

lemma lower_ascii: "is_ascii s \<Longrightarrow> py_lower so s = map lower_char s"
  by (simp add: py_lower_def)

lemma lower_chars:
  "map lower_char ''KTM status update notes'' = ''ktm status update notes''"
  "map lower_char ''Plan'' = ''plan''"
  "map lower_char ''PLAN'' = ''plan''"
  by code_simp+

lemma ascii_examples:
  "is_ascii ''KTM status update notes''" "is_ascii ''Plan''" "is_ascii ''PLAN''"
  by (simp_all add: is_ascii_def)

lemma lower_a: "py_lower so ''KTM status update notes'' = ''ktm status update notes''"
  by (simp only: lower_ascii [OF ascii_examples(1)] lower_chars)

lemma lower_plan: "py_lower so ''Plan'' = ''plan''"
  by (simp only: lower_ascii [OF ascii_examples(2)] lower_chars)

lemma lower_PLAN: "py_lower so ''PLAN'' = ''plan''"
  by (simp only: lower_ascii [OF ascii_examples(3)] lower_chars)

lemma title_a: "item_title so item_a = Inr ''KTM status update notes''"
  by (simp add: item_title_def item_a_def py_or_def strip_ascii is_ascii_def whitespace_def)

lemma title_b: "item_title so item_b = Inr ''Plan''"
  by (simp add: item_title_def item_b_def py_or_def strip_ascii is_ascii_def whitespace_def)

lemma title_plan: "item_title so item_plan = Inr ''Plan''"
  by (simp add: item_title_def item_plan_def py_or_def strip_ascii is_ascii_def whitespace_def)

lemma title_u: "item_title so item_untitled = Inr []"
  by (simp add: item_title_def item_untitled_def py_or_def py_strip_Nil)

lemma kw_a: "keyword_match so ''KTM status update notes''"
  by (simp add: keyword_match_def lower_a)

lemma list_tasks_list_server:
  "list_tasks (list_server (JArr items)) cfg3 c pid tr =
     (Inr (JArr items),
      tr @ [Call ''list_tasks'',
            Request (request_args cfg3 ''GET'' (base c @ ''/projects/'' @ pid @ ''/tasks'')
                       (client_headers c) None None)])"
  by (simp add: list_tasks_def http_request_def cfg3_def upto_1_3 send_def list_server_def
      json_of_def)

text \<open>
  Claim C2 as stated fails: with a keyword-only match before an exact match, the
  keyword-only match is returned.
\<close>

theorem find_task_by_title_precedence_counterexample:
  "fst (find_task_by_title ascii_text (list_server (JArr [item_a, item_plan])) cfg3 client0
          ''proj'' ''Plan'' [])
     = Inr (Some item_a) \<and>
   item_title ascii_text item_a = Inr ''KTM status update notes'' \<and>
   \<not> exact_match ascii_text ''Plan'' ''KTM status update notes'' \<and>
   item_title ascii_text item_plan = Inr ''Plan'' \<and>
   exact_match ascii_text ''Plan'' ''Plan''"
  by (simp add: find_task_by_title_def list_tasks_list_server title_a title_plan exact_match_def
      lower_a lower_plan kw_a Let_def)

theorem find_task_by_title_first_match_witness:
  "fst (find_task_by_title ascii_text (list_server (JArr [item_untitled, item_b, item_a])) cfg3
          client0 ''proj'' ''PLAN'' []) = Inr (Some item_b)"
proof -
  have t: "list_all well_titled [item_untitled, item_b, item_a]"
    by (simp add: well_titled_def item_untitled_def item_b_def item_a_def)
  have tt: "title_text ascii_text item_untitled = []" "title_text ascii_text item_b = ''Plan''"
    "title_text ascii_text item_a = ''KTM status update notes''"
    by (simp_all add: title_text_def item_untitled_def item_b_def item_a_def strip_ascii
        is_ascii_def whitespace_def)
  have p: "\<not> passes ascii_text ''PLAN'' []" "passes ascii_text ''PLAN'' ''Plan''"
    by (simp_all add: passes_def py_lower_Nil lower_plan lower_PLAN)
  have m: "find (\<lambda>it. passes ascii_text ''PLAN'' (title_text ascii_text it))
             [item_untitled, item_b, item_a] = Some item_b"
    by (simp add: tt p)
  have "fst (find_task_by_title ascii_text (list_server (JArr [item_untitled, item_b, item_a]))
          cfg3 client0 ''proj'' ''PLAN'' []) =
        Inr (find (\<lambda>it. passes ascii_text ''PLAN'' (title_text ascii_text it))
               [item_untitled, item_b, item_a])"
    by (rule find_task_by_title_first_match [OF list_tasks_list_server t])
  then show ?thesis by (simp only: m)
qed

text \<open>
  Claim C10 as stated fails for the empty searched title: the item without a title is
  returned as the exact match.
\<close>

theorem scan_items_untitled_item_counterexample:
  "fst (scan_items ascii_text []
          [item_untitled, JObj [(''id'', JStr ''e''), (''title'', JStr [])]] [])
     = Inr (Some item_untitled) \<and>
   map_of [(''id'', JStr ''u'')] ''title'' = None"
  by (simp add: title_u [unfolded item_untitled_def] exact_match_def py_lower_Nil Let_def
      item_untitled_def)

theorem scan_items_untitled_item_witness:
  "item_title ascii_text item_untitled = Inr [] \<and>
   fst (scan_items ascii_text ''PLAN'' [item_untitled, item_b] []) = Inr (Some item_b)"
proof -
  have h: "map_of [(''id'', JStr ''u'')] ''title'' = None \<or>
           map_of [(''id'', JStr ''u'')] ''title'' = Some JNull" by simp
  have step: "item_title ascii_text item_untitled = Inr [] \<and>
      scan_items ascii_text ''PLAN'' (item_untitled # [item_b]) [] =
        scan_items ascii_text ''PLAN'' [item_b] [Log INFO ''Found task with title: {t}'']"
    using scan_items_untitled_item [OF h, where title = "''PLAN''" and rest = "[item_b]"
        and tr = "[]" and so = ascii_text]
    by (simp add: item_untitled_def del: scan_items.simps)
  have rest: "fst (scan_items ascii_text ''PLAN'' [item_b]
                     [Log INFO ''Found task with title: {t}''])
                = Inr (Some item_b)"
    by (simp add: title_b exact_match_def lower_plan lower_PLAN Let_def)
  show ?thesis using step rest by (simp del: scan_items.simps)
qed


section \<open>Properties of the orchestrator\<close>

subsection \<open>Counting the calls of the client methods\<close>

lemma calls_simps:
  "calls f [] = 0"
  "calls f (e # es) = (if e = Call f then 1 else 0) + calls f es"
  by (simp_all add: calls_def)

lemma calls_back_off:
  "back_off backoff a tr = Inl (x, tr2) \<Longrightarrow> calls f tr2 = calls f tr"
  "back_off backoff a tr = Inr tr2 \<Longrightarrow> calls f tr2 = calls f tr"
  by (auto simp: back_off_def calls_append calls_simps retry_log_def split: backoff_result.splits)

lemma calls_http_attempts:
  "calls f (snd (http_attempts srv backoff rq as le tr)) = calls f tr"
proof (induction as arbitrary: le tr)
  case Nil
  then show ?case by (simp split: option.splits)
next
  case (Cons a as)
  have r: "calls f (tr @ [Request rq]) = calls f tr"
    by (simp add: calls_append calls_simps)
  show ?case
  proof (cases "back_off backoff a (tr @ [Request rq])")
    case (Inl p)
    then obtain x tr2 where p: "back_off backoff a (tr @ [Request rq]) = Inl (x, tr2)"
      by (cases p) simp
    from calls_back_off(1) [OF p, of f] r have "calls f tr2 = calls f tr" by simp
    with p show ?thesis
      by (cases "srv (nreqs tr) rq") (simp_all add: send_def r)
  next
    case (Inr tr2)
    from calls_back_off(2) [OF Inr, of f] r have "calls f tr2 = calls f tr" by simp
    with Inr show ?thesis
      by (cases "srv (nreqs tr) rq") (simp_all add: send_def Cons.IH r)
  qed
qed

lemma calls_http_request:
  "calls f (snd (http_request srv cfg m url hs jb ps tr)) = calls f tr"
  by (simp add: http_request_def calls_http_attempts)

lemma calls_http_request':
  "http_request srv cfg m url hs jb ps tr = (r, tr') \<Longrightarrow> calls f tr' = calls f tr"
  using calls_http_request [of f srv cfg m url hs jb ps tr] by simp

lemma calls_update_task:
  "calls f (snd (update_task srv cfg c task_id content_md tr)) =
     calls f tr + (if f = ''update_task'' then 1 else 0)"
  by (auto simp: update_task_def Let_def calls_append calls_simps
      split: prod.splits sum.splits dest!: calls_http_request' [where f = f])

lemma calls_create_task:
  "calls f (snd (create_task srv cfg c pid content_md title tr)) =
     calls f tr + (if f = ''create_task'' then 1 else 0)"
  by (auto simp: create_task_def Let_def calls_append calls_simps
      split: prod.splits sum.splits exc.splits dest!: calls_http_request' [where f = f])





lemma calls_except_events: "calls f (except_events e) = 0"
  by (cases e) (auto simp: except_events_def calls_simps split: option.splits)

subsection \<open>A configured task identifier\<close>

lemma rstrip_base: "rstrip_slash TASKADE_BASE_URL = TASKADE_BASE_URL"
  by (simp add: rstrip_slash_def TASKADE_BASE_URL_def)

lemma client_ok:
  "tok \<noteq> [] \<Longrightarrow>
   TaskadeClient TASKADE_BASE_URL tok = Inr \<lparr>base = TASKADE_BASE_URL, token = tok\<rparr>"
  by (simp add: TaskadeClient_def rstrip_base) (simp add: TASKADE_BASE_URL_def)

lemma fetch_ok:
  assumes "env_server env (nreqs tr) (get_args cfg url) = Inr resp"
    and "resp_status_code resp < 400 \<or> 600 \<le> resp_status_code resp"
    and "env_decode env (resp_content resp) = Inr feed"
  shows "fetch_gtfs_realtime_feed env cfg url (tr @ [Log l m]) =
           (Inr feed, tr @ [Log l m, Log INFO ''Fetching GTFS-R feed: {url}'',
                            Request (get_args cfg url)])"
  using assms
  by (auto simp: fetch_gtfs_realtime_feed_def send_def nreqs_append nreqs_simps)

lemma main_try_known_id:
  assumes "TASKADE_API_TOKEN cfg \<noteq> []"
    and "py_strip (env_str env) (TASKADE_TASK_ID cfg) \<noteq> []"
    and "env_server env (nreqs tr) (get_args cfg GTFSR_URL) = Inr resp"
    and "resp_status_code resp < 400 \<or> 600 \<le> resp_status_code resp"
    and "env_decode env (resp_content resp) = Inr feed"
  shows "main_try env cfg tr =
     (case update_task (env_server env) cfg
             \<lparr>base = TASKADE_BASE_URL, token = TASKADE_API_TOKEN cfg\<rparr>
             (py_strip (env_str env) (TASKADE_TASK_ID cfg)) (render_feed env feed) (known_id_trace cfg tr) of
        (Inl e, tr2) \<Rightarrow> (Inl e, tr2)
      | (Inr u, tr2) \<Rightarrow> (Inr 0, tr2 @ [Log INFO ''Update complete'']))"
proof -
  have ne: "TASKADE_TASK_ID cfg \<noteq> []"
    using assms(2) by (auto simp: py_strip_Nil)
  show ?thesis
    unfolding main_try_def client_ok [OF assms(1)] fetch_ok [OF assms(3,4,5)]
    using ne assms(2) by (simp add: Let_def known_id_trace_def)
qed

lemma main_known_id_result:
  assumes "TASKADE_PROJECT_ID cfg \<noteq> []"
    and "TASKADE_API_TOKEN cfg \<noteq> []"
    and "py_strip (env_str env) (TASKADE_TASK_ID cfg) \<noteq> []"
    and "env_server env (nreqs tr) (get_args cfg GTFSR_URL) = Inr resp"
    and "resp_status_code resp < 400 \<or> 600 \<le> resp_status_code resp"
    and "env_decode env (resp_content resp) = Inr feed"
    and "update_task (env_server env) cfg
              \<lparr>base = TASKADE_BASE_URL, token = TASKADE_API_TOKEN cfg\<rparr>
              (py_strip (env_str env) (TASKADE_TASK_ID cfg)) (render_feed env feed) (known_id_trace cfg tr)
           = (r, tr2)"
  shows "main env cfg tr =
     (case r of Inl e \<Rightarrow> (1, tr2 @ except_events e)
              | Inr v \<Rightarrow> (0, tr2 @ [Log INFO ''Update complete'']))"
    and "calls f tr2 = calls f tr + (if f = ''update_task'' then 1 else 0)"
proof -
  show "main env cfg tr =
     (case r of Inl e \<Rightarrow> (1, tr2 @ except_events e)
              | Inr v \<Rightarrow> (0, tr2 @ [Log INFO ''Update complete'']))"
    using assms(1,2,7)
    by (simp add: main_def main_try_known_id [OF assms(2-6)] split: sum.splits)
  have "calls f (snd (update_task (env_server env) cfg
              \<lparr>base = TASKADE_BASE_URL, token = TASKADE_API_TOKEN cfg\<rparr>
              (py_strip (env_str env) (TASKADE_TASK_ID cfg)) (render_feed env feed) (known_id_trace cfg tr)))
        = calls f (known_id_trace cfg tr) + (if f = ''update_task'' then 1 else 0)"
    by (rule calls_update_task)
  then show "calls f tr2 = calls f tr + (if f = ''update_task'' then 1 else 0)"
    using assms(7) by (simp add: known_id_trace_def calls_append calls_simps)
qed

text \<open>
  Claim C6, amended. In a run with the required configuration and a task identifier that
  is not empty after trimming, once the feed has been fetched and decoded, \<^verbatim>\<open>main\<close> calls
  \<^verbatim>\<open>update_task\<close> exactly once and calls neither \<^verbatim>\<open>create_task\<close> nor
  \<^verbatim>\<open>find_task_by_title\<close>; it returns 0 when that call returns and 1 when it raises.
\<close>

theorem main_known_task_id:
  assumes "TASKADE_PROJECT_ID cfg \<noteq> []"
    and "TASKADE_API_TOKEN cfg \<noteq> []"
    and "py_strip (env_str env) (TASKADE_TASK_ID cfg) \<noteq> []"
    and "env_server env (nreqs tr) (get_args cfg GTFSR_URL) = Inr resp"
    and "resp_status_code resp < 400 \<or> 600 \<le> resp_status_code resp"
    and "env_decode env (resp_content resp) = Inr feed"
  shows "calls ''update_task'' (snd (main env cfg tr)) = calls ''update_task'' tr + 1 \<and>
         calls ''create_task'' (snd (main env cfg tr)) = calls ''create_task'' tr \<and>
         calls ''find_task_by_title'' (snd (main env cfg tr)) = calls ''find_task_by_title'' tr \<and>
         fst (main env cfg tr) =
           (case fst (update_task (env_server env) cfg
                        \<lparr>base = TASKADE_BASE_URL, token = TASKADE_API_TOKEN cfg\<rparr>
                        (py_strip (env_str env) (TASKADE_TASK_ID cfg)) (render_feed env feed)
                        (known_id_trace cfg tr)) of
              Inr u \<Rightarrow> 0
            | Inl e \<Rightarrow> 1)"
proof -
  let ?u = "update_task (env_server env) cfg
              \<lparr>base = TASKADE_BASE_URL, token = TASKADE_API_TOKEN cfg\<rparr>
              (py_strip (env_str env) (TASKADE_TASK_ID cfg)) (render_feed env feed) (known_id_trace cfg tr)"
  obtain r tr2 where u: "?u = (r, tr2)" by (cases ?u)
  note res = main_known_id_result [OF assms u]
  show ?thesis
    using u by (cases r) (simp_all add: res calls_append calls_simps calls_except_events)
qed

lemma strip_t1: "py_strip so '' t1 '' = ''t1''"
  by (simp add: strip_ascii is_ascii_def whitespace_def)

lemma known_id_hyps:
  "TASKADE_PROJECT_ID cfg_known_id \<noteq> []"
  "TASKADE_API_TOKEN cfg_known_id \<noteq> []"
  "py_strip (env_str env) (TASKADE_TASK_ID cfg_known_id) \<noteq> []"
  by (simp_all add: cfg_known_id_def strip_t1)

lemma served_feed:
  "resp_status_code (ok_response None) < 400 \<or> 600 \<le> resp_status_code (ok_response None)"
  "env_decode (env_with srv) (resp_content (ok_response None)) = Inr empty_feed"
  by (simp_all add: ok_response_def env_with_def)

lemma nreqs_known_id_trace: "nreqs (known_id_trace cfg []) = 1"
  by (simp add: known_id_trace_def nreqs_simps)

lemma update_404:
  "nreqs tr = 1 \<Longrightarrow>
   fst (update_task feed_then_404 cfg_known_id c task_id content_md tr) =
     Inl (RuntimeError ''Update task failed: 404 not found'')"
  by (simp add: update_task_def Let_def http_request_def cfg_known_id_def upto_1_3 send_def
      nreqs_append nreqs_simps feed_then_404_def str_int_def str_nat.simps)

lemma update_200:
  "base c = TASKADE_BASE_URL \<Longrightarrow>
   fst (update_task (taskade tasks created) cfg_known_id c task_id content_md tr) =
     Inr (JObj [(''task_id'', JStr task_id)])"
  by (simp add: update_task_def Let_def http_request_def cfg_known_id_def upto_1_3 send_def
      taskade_def ok_response_def request_args_def TASKADE_BASE_URL_def GTFSR_URL_def)

text \<open>
  Claim C6 as stated fails: with a configured identifier and the feed served, an update
  answered with 404 is one call of \<^verbatim>\<open>update_task\<close> and the exit code 1.
\<close>

theorem main_known_task_id_counterexample:
  "py_strip ascii_text (TASKADE_TASK_ID cfg_known_id) = ''t1'' \<and>
   fst (main (env_with feed_then_404) cfg_known_id []) = 1 \<and>
   calls ''update_task'' (snd (main (env_with feed_then_404) cfg_known_id [])) = 1"
proof -
  let ?u = "update_task (env_server (env_with feed_then_404)) cfg_known_id
              \<lparr>base = TASKADE_BASE_URL, token = TASKADE_API_TOKEN cfg_known_id\<rparr>
              (py_strip (env_str (env_with feed_then_404)) (TASKADE_TASK_ID cfg_known_id))
              (render_feed (env_with feed_then_404) empty_feed) (known_id_trace cfg_known_id [])"
  have s: "env_server (env_with feed_then_404) (nreqs []) (get_args cfg_known_id GTFSR_URL)
             = Inr (ok_response None)"
    by (simp add: env_with_def feed_then_404_def nreqs_simps)
  have srv: "env_server (env_with feed_then_404) = feed_then_404"
    by (simp add: env_with_def)
  obtain r tr2 where u: "?u = (r, tr2)" by (cases ?u)
  have r: "r = Inl (RuntimeError ''Update task failed: 404 not found'')"
  proof -
    have "fst ?u = Inl (RuntimeError ''Update task failed: 404 not found'')"
      unfolding srv by (rule update_404 [OF nreqs_known_id_trace])
    with u show ?thesis by simp
  qed
  note res = main_known_id_result [OF known_id_hyps s served_feed u]
  show ?thesis
    by (simp add: res r calls_append calls_simps calls_except_events)
       (simp add: cfg_known_id_def strip_t1)
qed

theorem main_known_task_id_witness:
  "fst (main (env_with (taskade (JArr []) JNull)) cfg_known_id []) = 0 \<and>
   calls ''update_task'' (snd (main (env_with (taskade (JArr []) JNull)) cfg_known_id [])) = 1 \<and>
   calls ''create_task'' (snd (main (env_with (taskade (JArr []) JNull)) cfg_known_id [])) = 0 \<and>
   calls ''find_task_by_title''
     (snd (main (env_with (taskade (JArr []) JNull)) cfg_known_id [])) = 0"
proof -
  have s: "env_server (env_with (taskade (JArr []) JNull)) (nreqs [])
             (get_args cfg_known_id GTFSR_URL) = Inr (ok_response None)"
    by (simp add: env_with_def taskade_def get_args_def)
  have srv: "env_server (env_with (taskade (JArr []) JNull)) = taskade (JArr []) JNull"
    by (simp add: env_with_def)
  from main_known_task_id [OF known_id_hyps s served_feed]
  show ?thesis
    by (simp add: srv update_200 calls_simps)
qed

subsection \<open>A creation response without the identifier\<close>







subsection \<open>Runs without a configured identifier\<close>

lemma title_dashboard:
  "item_title so dashboard_without_id = Inr ''KTM Train Status Live Update''"
  by (simp add: item_title_def dashboard_without_id_def py_or_def strip_ascii is_ascii_def
      whitespace_def)

lemma find_dashboard:
  "find_task_by_title so (taskade (JArr [dashboard_without_id]) created) cfg3
       \<lparr>base = TASKADE_BASE_URL, token = tok\<rparr> ''proj'' DASHBOARD_TITLE tr =
     (Inr (Some dashboard_without_id),
      tr @ [Call ''find_task_by_title'', Call ''list_tasks'',
            Request (request_args cfg3 ''GET'' (TASKADE_BASE_URL @ ''/projects/proj/tasks'')
                       (client_headers \<lparr>base = TASKADE_BASE_URL, token = tok\<rparr>) None None),
            Log INFO ''Searching through {len(items)} tasks for title: {title}'',
            Log INFO ''Found task with title: {t}'',
            Log INFO ''Found exact matching task: {t}''])"
  by (simp add: find_task_by_title_def list_tasks_def http_request_def cfg3_def upto_1_3 send_def
      taskade_def ok_response_def request_args_def json_of_def title_dashboard exact_match_def
      DASHBOARD_TITLE_def Let_def)
     (simp add: TASKADE_BASE_URL_def GTFSR_URL_def)


lemma cfg3_fields:
  "TASKADE_PROJECT_ID cfg3 = ''proj''" "TASKADE_API_TOKEN cfg3 = ''tok''"
  "TASKADE_TASK_ID cfg3 = []" "MAX_RETRIES cfg3 = 3"
  by (simp_all add: cfg3_def)

lemma fetch_taskade:
  "fetch_gtfs_realtime_feed (env_with (taskade tasks created)) cfg GTFSR_URL (tr @ [Log l m]) =
     (Inr empty_feed, tr @ [Log l m, Log INFO ''Fetching GTFS-R feed: {url}'',
                            Request (get_args cfg GTFSR_URL)])"
proof (rule fetch_ok)
  show "env_server (env_with (taskade tasks created)) (nreqs tr) (get_args cfg GTFSR_URL)
          = Inr (ok_response None)"
    by (simp add: env_with_def taskade_def get_args_def)
qed (simp_all add: served_feed)

lemma post_taskade:
  "http_request (taskade tasks created) cfg3 ''POST'' url hs jb ps tr =
     (Inr (ok_response (Some created)), tr @ [Request (request_args cfg3 ''POST'' url hs jb ps)])"
  by (simp add: http_request_def cfg3_fields upto_1_3 send_def taskade_def request_args_def
      ok_response_def)


lemma id_paths:
  "id_path created_n1 = Inr (JStr ''n1'')"
  "id_path created_empty = Inl (KeyError ''item'')"
  "id_path created_no_items = Inl IndexError"
  by (simp_all add: id_path_def created_n1_def created_empty_def created_no_items_def)

lemma identifier_dashboard: "identifier_of repr dashboard_without_id = Inr []"
  by (simp add: identifier_of_def dashboard_without_id_def py_or_def py_str_def)

lemma truthy_dashboard: "truthy dashboard_without_id"
  by (simp add: dashboard_without_id_def)

lemma identifier_created:
  "identifier_of repr (JObj [(''id'', JStr ''n1''), (''response'', v)]) = Inr ''n1''"
  by (simp add: identifier_of_def py_str_def)

lemma env_with_fields:
  "env_server (env_with srv) = srv" "env_repr (env_with srv) = (\<lambda>v. ''[...]'')"
  "env_str (env_with srv) = ascii_text"
  by (simp_all add: env_with_def)

text \<open>
  Claim C3, evaluated on a run with no configured identifier in which the task list holds
  a task with the dashboard title and no identifier: \<^verbatim>\<open>main\<close> logs the warning, then logs
  that no task was found, calls \<^verbatim>\<open>create_task\<close>, which creates a second task, and
  returns 0.
\<close>

theorem main_found_without_id:
  "fst (main (env_with (taskade (JArr [dashboard_without_id]) created_n1)) cfg3 []) = 0 \<and>
   Log WARNING
     ''Found task by title but could not determine its ID field; updating may not be possible.''
     \<in> set (snd (main (env_with (taskade (JArr [dashboard_without_id]) created_n1)) cfg3 [])) \<and>
   Log INFO ''No existing task found. Creating a new dashboard task.''
     \<in> set (snd (main (env_with (taskade (JArr [dashboard_without_id]) created_n1)) cfg3 [])) \<and>
   calls ''create_task''
     (snd (main (env_with (taskade (JArr [dashboard_without_id]) created_n1)) cfg3 [])) = 1 \<and>
   calls ''update_task''
     (snd (main (env_with (taskade (JArr [dashboard_without_id]) created_n1)) cfg3 [])) = 0 \<and>
   Print (JObj [(''TASKADE_TASK_ID'', JStr ''n1'')])
     \<in> set (snd (main (env_with (taskade (JArr [dashboard_without_id]) created_n1)) cfg3 []))"
proof -
  have m: "main (env_with (taskade (JArr [dashboard_without_id]) created_n1)) cfg3 [] =
    (0, [Log INFO ''Fetching data from API at {ts_fmt(now_myt())}...'',
         Log INFO ''Fetching GTFS-R feed: {url}'',
         Request (get_args cfg3 GTFSR_URL),
         Log INFO
           ''Searching for existing task titled {DASHBOARD_TITLE} in project {TASKADE_PROJECT_ID}'',
         Call ''find_task_by_title'', Call ''list_tasks'',
         Request (request_args cfg3 ''GET'' (TASKADE_BASE_URL @ ''/projects/proj/tasks'')
                    (client_headers \<lparr>base = TASKADE_BASE_URL, token = ''tok''\<rparr>) None None),
         Log INFO ''Searching through {len(items)} tasks for title: {title}'',
         Log INFO ''Found task with title: {t}'',
         Log INFO ''Found exact matching task: {t}'',
         Log WARNING
           ''Found task by title but could not determine its ID field; updating may not be possible.'',
         Log INFO ''No existing task found. Creating a new dashboard task.'',
         Call ''create_task'',
         Log INFO ''Creating task at {url}'',
         Request (request_args cfg3 ''POST'' (TASKADE_BASE_URL @ ''/projects/proj/tasks'')
                    (client_headers \<lparr>base = TASKADE_BASE_URL, token = ''tok''\<rparr>)
                    (Some (JObj [(''tasks'', JArr [JObj
                       [(''taskId'', JNull),
                        (''placement'', JStr ''afterbegin''),
                        (''contentType'', JStr ''text/markdown''),
                        (''content'', JStr (render_feed
                           (env_with (taskade (JArr [dashboard_without_id]) created_n1))
                           empty_feed)),
                        (''title'', JStr DASHBOARD_TITLE)]])])) None),
         Log INFO
           ''DEBUG: Full API Response for Create Task: {json.dumps(response_data, indent=2)}'',
         Log INFO ''Successfully created task. Task ID: {task_id}'',
         Log INFO ''Created task id={new_id}'',
         Print (JObj [(''TASKADE_TASK_ID'', JStr ''n1'')])])"
    unfolding main_def main_try_def cfg3_fields
    apply (simp add: client_ok)
    apply (simp only: fetch_taskade [of _ _ _ "[]", simplified])
    apply (simp add: cfg3_fields env_with_fields find_dashboard
        truthy_dashboard identifier_dashboard main_create_def create_task_def Let_def
        post_taskade ok_response_def json_of_def id_paths identifier_created)
    done
  show ?thesis
    unfolding m by (simp add: calls_simps)
qed








end
